theory Spec2Isabelle
  imports Main "HOL-Library.Word" "HOL-Library.Multiset"
begin

section \<open>Errors and Go results\<close>

text \<open>
  Go's \<open>error\<close> values as the sources build them: \<open>errors.New\<close> and
  \<open>errors.Errorf\<close> give a message, \<open>errors.Wrap\<close> annotates a cause with a
  message, \<open>errors.WithStack\<close> annotates it with a stack, the document store's
  not-found sentinel is what \<open>db.ResultsNotFound\<close> recognises, and a non-empty
  \<open>grip\<close> catcher resolves to one error holding everything that was added to it.
  A Go \<open>nil\<close> error is \<open>None\<close>.
\<close>

datatype error =
    ErrNew string
  | ErrWrap error string
  | ErrStack error
  | ErrNotFound
  | ErrCatcher "error list"

fun Wrap :: "error option \<Rightarrow> string \<Rightarrow> error option" where
  "Wrap None msg = None"
| "Wrap (Some e) msg = Some (ErrWrap e msg)"

fun WithStack :: "error option \<Rightarrow> error option" where
  "WithStack None = None"
| "WithStack (Some e) = Some (ErrStack e)"

fun Cause :: "error \<Rightarrow> error" where
  "Cause (ErrWrap e msg) = Cause e"
| "Cause (ErrStack e) = Cause e"
| "Cause e = e"

fun ResultsNotFound :: "error option \<Rightarrow> bool" where
  "ResultsNotFound (Some ErrNotFound) = True"
| "ResultsNotFound _ = False"

text \<open>A Go pair \<open>(value, err)\<close>; a \<open>nil\<close> pointer or slice is \<open>None\<close>.\<close>

type_synonym 'a result = "'a option \<times> error option"


section \<open>Go's time package, as far as the sources use it\<close>

text \<open>
  A \<open>time.Duration\<close> is an \<open>int64\<close> count of nanoseconds. A \<open>time.Time\<close> is an
  instant with a location; the instant is kept as nanoseconds since the Unix epoch. A
  location tells, for an instant (in Unix seconds), the zone abbreviation and the offset
  east of UTC in force, and, for a wall-clock reading (in seconds), the offset that
  \<open>time.Date\<close> settles on for it (at a clock change Go documents that it picks one of
  the two zones involved).
\<close>

type_synonym Duration = "64 word"

record Location =
  zoneAt :: "int \<Rightarrow> string \<times> int"
  wallOffset :: "int \<Rightarrow> int"

record Time =
  unixNano :: int
  loc :: Location

definition UTC :: Location where
  "UTC = \<lparr>zoneAt = (\<lambda>sec. (''UTC'', 0)), wallOffset = (\<lambda>wall. 0)\<rparr>"

text \<open>
  The proleptic Gregorian calendar: the civil date of a day number counted from
  1970-01-01, and back. Years are grouped in eras of 400 years (146097 days) that start
  on 1 March, so that the leap day is the last day of a year of the era. Inside an era
  the centuries (36524 days), the four-year cycles (1461 days) and the years (365
  days) are cut off in turn; the last century and the last year of a cycle are one
  day longer, so their count is capped at 3.
\<close>

definition civilOf :: "int \<Rightarrow> int \<Rightarrow> int \<Rightarrow> int \<Rightarrow> int \<times> int \<times> int" where
  "civilOf era yoe doy mp =
     (if mp < 10 then (yoe + era * 400, mp + 3, doy - (153 * mp + 2) div 5 + 1)
      else (yoe + era * 400 + 1, mp - 9, doy - (153 * mp + 2) div 5 + 1))"

definition civilDoy :: "int \<Rightarrow> int \<Rightarrow> int \<Rightarrow> int \<times> int \<times> int" where
  "civilDoy era yoe doy = civilOf era yoe doy ((5 * doy + 2) div 153)"

definition civilYear :: "int \<Rightarrow> int \<Rightarrow> int \<Rightarrow> int \<Rightarrow> int \<times> int \<times> int" where
  "civilYear era n100 n4 d =
     civilDoy era (100 * n100 + 4 * n4 + min 3 (d div 365)) (d - 365 * min 3 (d div 365))"

definition civilCycle :: "int \<Rightarrow> int \<Rightarrow> int \<Rightarrow> int \<times> int \<times> int" where
  "civilCycle era n100 d = civilYear era n100 (d div 1461) (d mod 1461)"

definition civilCentury :: "int \<Rightarrow> int \<Rightarrow> int \<times> int \<times> int" where
  "civilCentury era doe =
     civilCycle era (min 3 (doe div 36524)) (doe - 36524 * min 3 (doe div 36524))"

definition civil :: "int \<Rightarrow> int \<times> int \<times> int" where
  "civil z = civilCentury ((z + 719468) div 146097) ((z + 719468) mod 146097)"

definition daysOf :: "int \<Rightarrow> int \<Rightarrow> int \<Rightarrow> int" where
  "daysOf y mp d =
     (y div 400) * 146097 + (y mod 400) * 365 + (y mod 400) div 4 - (y mod 400) div 100
       + (153 * mp + 2) div 5 + d - 1 - 719468"

definition daysFromCivil :: "int \<Rightarrow> int \<Rightarrow> int \<Rightarrow> int" where
  "daysFromCivil y m d = (if m \<le> 2 then daysOf (y - 1) (m + 9) d else daysOf y (m - 3) d)"

text \<open>The accessors read the instant on the wall clock of the time's own location.\<close>

definition absSec :: "Time \<Rightarrow> int" where
  "absSec t =
     unixNano t div 1000000000 + snd (zoneAt (loc t) (unixNano t div 1000000000))"

definition Year :: "Time \<Rightarrow> int" where
  "Year t = (case civil (absSec t div 86400) of (y, m, d) \<Rightarrow> y)"

definition Month :: "Time \<Rightarrow> int" where
  "Month t = (case civil (absSec t div 86400) of (y, m, d) \<Rightarrow> m)"

definition Day :: "Time \<Rightarrow> int" where
  "Day t = (case civil (absSec t div 86400) of (y, m, d) \<Rightarrow> d)"

definition Hour :: "Time \<Rightarrow> int" where
  "Hour t = absSec t mod 86400 div 3600"

definition Minute :: "Time \<Rightarrow> int" where
  "Minute t = absSec t mod 3600 div 60"

definition Second :: "Time \<Rightarrow> int" where
  "Second t = absSec t mod 60"

definition Nanosecond :: "Time \<Rightarrow> int" where
  "Nanosecond t = unixNano t mod 1000000000"

text \<open>
  \<open>time.Date\<close>: the month is normalised into the year, the other fields overflow
  into the next larger one (which the sum of seconds does by itself), and the reading
  is taken back to an instant with the offset of the location.
\<close>

definition wallClock :: "int \<Rightarrow> int \<Rightarrow> int \<Rightarrow> int \<Rightarrow> int \<Rightarrow> int \<Rightarrow> int \<Rightarrow> int" where
  "wallClock year month day hour minute sec nsec =
     daysFromCivil (year + (month - 1) div 12) ((month - 1) mod 12 + 1) day * 86400
       + hour * 3600 + minute * 60 + sec + nsec div 1000000000"

definition atWall :: "int \<Rightarrow> int \<Rightarrow> Location \<Rightarrow> Time" where
  "atWall wall nsec l =
     \<lparr>unixNano = (wall - wallOffset l wall) * 1000000000 + nsec mod 1000000000, loc = l\<rparr>"

definition Date ::
  "int \<Rightarrow> int \<Rightarrow> int \<Rightarrow> int \<Rightarrow> int \<Rightarrow> int \<Rightarrow> int \<Rightarrow> Location \<Rightarrow> Time" where
  "Date year month day hour minute sec nsec l =
     atWall (wallClock year month day hour minute sec nsec) nsec l"

definition Add :: "Time \<Rightarrow> Duration \<Rightarrow> Time" where
  "Add t d = t\<lparr>unixNano := unixNano t + sint d\<rparr>"

subsection \<open>Formatting\<close>

definition digitChar :: "nat \<Rightarrow> char" where
  "digitChar n = ''0123456789'' ! n"

fun digits :: "nat \<Rightarrow> string \<Rightarrow> string" where
  "digits v buf = (if v = 0 then buf else digits (v div 10) (digitChar (v mod 10) # buf))"

declare digits.simps [simp del]

definition fmtInt :: "nat \<Rightarrow> string" where
  "fmtInt v = (if v = 0 then ''0'' else digits v [])"

definition zeroPad :: "nat \<Rightarrow> string \<Rightarrow> string" where
  "zeroPad width ds = replicate (width - length ds) (CHR ''0'') @ ds"

definition appendInt :: "int \<Rightarrow> nat \<Rightarrow> string" where
  "appendInt x width = (if x < 0 then ''-'' else []) @ zeroPad width (fmtInt (nat \<bar>x\<bar>))"

text \<open>Go's integer division truncates towards zero.\<close>

definition quot :: "int \<Rightarrow> int \<Rightarrow> int" where
  "quot a b = sgn a * sgn b * (\<bar>a\<bar> div \<bar>b\<bar>)"

definition TrimRight :: "string \<Rightarrow> string \<Rightarrow> string" where
  "TrimRight s cutset = rev (dropWhile (\<lambda>c. c \<in> set cutset) (rev s))"

text \<open>The layout element \<open>.999999999\<close>: the fraction without trailing zeros, or nothing.\<close>

definition appendNano :: "int \<Rightarrow> string" where
  "appendNano nanosec =
     (if nanosec = 0 then [] else CHR ''.'' # TrimRight (appendInt nanosec 9) ''0'')"

text \<open>The layout elements \<open>-0700\<close> and, with the colon, the numeric part of \<open>Z07:00\<close>.\<close>

definition numTZ :: "bool \<Rightarrow> int \<Rightarrow> string" where
  "numTZ colon offset =
     (if quot offset 60 < 0 then ''-'' else ''+'') @ appendInt (\<bar>quot offset 60\<bar> div 60) 2
       @ (if colon then '':'' else []) @ appendInt (\<bar>quot offset 60\<bar> mod 60) 2"

definition clock :: "Time \<Rightarrow> string" where
  "clock t = appendInt (Hour t) 2 @ '':'' @ appendInt (Minute t) 2 @ '':'' @ appendInt (Second t) 2"

definition ymd :: "Time \<Rightarrow> string" where
  "ymd t = appendInt (Year t) 4 @ ''-'' @ appendInt (Month t) 2 @ ''-'' @ appendInt (Day t) 2"

text \<open>
  \<open>t.String()\<close> for a time without a monotonic clock reading, which is the layout
  \<open>2006-01-02 15:04:05.999999999 -0700 MST\<close>; a zone without an abbreviation is
  printed as its offset.
\<close>

definition Time_String :: "Time \<Rightarrow> string" where
  "Time_String t =
     (case zoneAt (loc t) (unixNano t div 1000000000) of (name, offset) \<Rightarrow>
        ymd t @ '' '' @ clock t @ appendNano (Nanosecond t) @ '' '' @ numTZ False offset @ '' ''
          @ (if name \<noteq> [] then name else numTZ False offset))"

text \<open>\<open>t.Format("2006-01-02T15:04:05Z07:00")\<close>.\<close>

definition Format_RFC3339 :: "Time \<Rightarrow> string" where
  "Format_RFC3339 t =
     (case zoneAt (loc t) (unixNano t div 1000000000) of (name, offset) \<Rightarrow>
        ymd t @ ''T'' @ clock t @ (if offset = 0 then ''Z'' else numTZ True offset))"

text \<open>\<open>t.Format("2006-01-02-15-04")\<close>.\<close>

definition Format_fileDate :: "Time \<Rightarrow> string" where
  "Format_fileDate t =
     ymd t @ ''-'' @ appendInt (Hour t) 2 @ ''-'' @ appendInt (Minute t) 2"

text \<open>
  \<open>d.String()\<close>. \<open>fmtFrac\<close> writes the last \<open>prec\<close> digits of \<open>v\<close> in front of
  the buffer, leaving trailing zeros and then the point out, and returns what is left
  of \<open>v\<close>. Below one second the unit is ns, the micro sign (two bytes in UTF-8) with s,
  or ms; from one second on, hours, minutes and seconds, the larger units only when
  they are not zero.
\<close>

fun fmtFrac :: "nat \<Rightarrow> nat \<Rightarrow> bool \<Rightarrow> string \<Rightarrow> string \<times> nat" where
  "fmtFrac v prec print buf =
     (if prec = 0 then (if print then CHR ''.'' # buf else buf, v)
      else (let digit = v mod 10; print' = (print \<or> digit \<noteq> 0)
            in fmtFrac (v div 10) (prec - 1) print'
                 (if print' then digitChar digit # buf else buf)))"

declare fmtFrac.simps [simp del]

definition Duration_String :: "Duration \<Rightarrow> string" where
  "Duration_String d =
     (let neg = d <s 0;
          u = unat (if neg then - d else d);
          body =
            (if u < 1000000000 then
               (if u = 0 then ''0s''
                else if u < 1000 then fmtInt u @ ''ns''
                else if u < 1000000 then
                  (case fmtFrac u 3 False [CHR 0xC2, CHR 0xB5, CHR ''s''] of
                     (buf, v) \<Rightarrow> fmtInt v @ buf)
                else (case fmtFrac u 6 False ''ms'' of (buf, v) \<Rightarrow> fmtInt v @ buf))
             else
               (case fmtFrac u 9 False ''s'' of (buf, secs) \<Rightarrow>
                  (let b1 = fmtInt (secs mod 60) @ buf; mins = secs div 60
                   in if mins > 0 then
                        (let b2 = fmtInt (mins mod 60) @ ''m'' @ b1; hours = mins div 60
                         in if hours > 0 then fmtInt hours @ ''h'' @ b2 else b2)
                      else b1)))
      in (if neg then ''-'' else []) @ body)"
section \<open>evergreen/distros.go\<close>

type_synonym float64 = "64 word"

record Distro =
  DistroID :: string

record DistroCost =
  DistroID :: string
  Provider :: string
  InstanceType :: string
  SumTimeTaken :: Duration
  SumEstimatedCost :: float64

text \<open>
  The client's \<open>get\<close> is the HTTP primitive: for a route it yields the body, the
  pagination link and the request error. \<open>json.Unmarshal\<close> into \<open>[]*Distro\<close> and
  into \<open>**DistroCost\<close> are the two decoders; an element or a document that is JSON
  \<open>null\<close> decodes to a nil pointer, and a list that is \<open>null\<close> to a nil slice.
\<close>

record Client =
  get :: "string \<Rightarrow> string \<times> string \<times> error option"
  unmarshalDistros :: "string \<Rightarrow> error + Distro option list option"
  unmarshalDistroCost :: "string \<Rightarrow> error + DistroCost option"

definition GetDistros :: "Client \<Rightarrow> Distro option list result" where
  "GetDistros c =
     (case get c ''/distros'' of (data, link, err) \<Rightarrow>
        if link \<noteq> '''' then (None, Some (ErrNew ''/distros should not be a paginated route''))
        else if err \<noteq> None then (None, Wrap err ''error in getting distros'')
        else (case unmarshalDistros c data of
                Inl e \<Rightarrow> (None, Some e)
              | Inr distros \<Rightarrow> (distros, None)))"

definition costRoute :: "string \<Rightarrow> string \<Rightarrow> string \<Rightarrow> string" where
  "costRoute distroID starttime duration =
     ''/cost/distro/'' @ distroID @ ''?starttime='' @ starttime @ ''&duration='' @ duration"

definition GetDistroCost :: "Client \<Rightarrow> string \<Rightarrow> string \<Rightarrow> string \<Rightarrow> DistroCost result" where
  "GetDistroCost c distroID starttime duration =
     (case get c (costRoute distroID starttime duration) of (data, link, err) \<Rightarrow>
        if link \<noteq> '''' then (None, Some (ErrNew ''/cost/distro should not be a paginated route''))
        else if err \<noteq> None then (None, Wrap err ''error in GetDistroCost'')
        else (case unmarshalDistroCost c data of
                Inl e \<Rightarrow> (None, Some e)
              | Inr distro \<Rightarrow> (distro, None)))"


text \<open>
  \<open>getDistroIDs\<close> ranges over the decoded pointers and reads \<open>d.DistroID\<close>; a nil
  element makes that read panic, so the function either returns or panics.
\<close>

datatype 'a outcome = Panic | Return 'a

fun collectIDs :: "Distro option list \<Rightarrow> string list \<Rightarrow> string list outcome" where
  "collectIDs [] distroIDs = Return distroIDs"
| "collectIDs (None # ds) distroIDs = Panic"
| "collectIDs (Some d # ds) distroIDs = collectIDs ds (distroIDs @ [Distro.DistroID d])"

definition getDistroIDs :: "Client \<Rightarrow> string list result outcome" where
  "getDistroIDs c =
     (case GetDistros c of
        (distros, Some err) \<Rightarrow> Return (None, Wrap (Some err) ''error getting distros ids'')
      | (distros, None) \<Rightarrow>
          (case collectIDs (case distros of None \<Rightarrow> [] | Some ds \<Rightarrow> ds) [] of
             Panic \<Rightarrow> Panic
           | Return distroIDs \<Rightarrow> Return (Some distroIDs, None)))"

subsection \<open>The worker pool of getDistroCosts\<close>

text \<open>
  \<open>getDistroCosts\<close> fills the buffered channel \<open>distros\<close> in the order of
  \<open>rand.Perm\<close>, closes it, and starts 16 workers and the loop that drains the
  unbuffered channel \<open>costs\<close>. The goroutines interleave, so the function is modelled as
  a machine whose steps are the atomic actions of one worker, run under a schedule that
  names which worker moves next; every interleaving is some schedule.

  A worker is at the head of its \<open>range distros\<close> loop (\<open>WRecv\<close>), blocked in
  \<open>costs <- dc\<close> (\<open>WSend dc\<close>), or has returned (\<open>WDone\<close>). The step of a worker at
  \<open>WRecv\<close> receives one ID (or finds the channel closed and empty and returns), tests
  \<open>ctx.Err()\<close>, calls \<open>GetDistroCost\<close> and adds the wrapped error to the catcher
  (\<open>errors.Wrap\<close> of nil is nil, and adding nil adds nothing). The step of a worker at
  \<open>WSend dc\<close> is the rendezvous with the draining loop, which keeps \<open>dc\<close> when
  \<open>SumTimeTaken > 0\<close>. \<open>Cancel\<close> is the context being cancelled from outside, which
  may happen between any two steps. \<open>requested\<close> records the IDs for which the lookup
  was called, in call order.
\<close>

datatype worker = WRecv | WSend DistroCost | WDone

record fetch =
  distros :: "string list"
  workers :: "worker list"
  catcher :: "error list"
  distroCosts :: "DistroCost list"
  ctxErr :: bool
  requested :: "string list"

datatype action = Step nat | Cancel

definition catcherAdd :: "error option \<Rightarrow> error list \<Rightarrow> error list" where
  "catcherAdd err errs = (case err of None \<Rightarrow> errs | Some e \<Rightarrow> errs @ [e])"

definition lookupMsg :: string where
  "lookupMsg = ''error when getting distro cost data from Evergreen''"

definition workerStep :: "(string \<Rightarrow> DistroCost result) \<Rightarrow> nat \<Rightarrow> fetch \<Rightarrow> fetch option" where
  "workerStep lookup i s =
     (if length (workers s) \<le> i then None
      else case workers s ! i of
        WDone \<Rightarrow> None
      | WSend evgdc \<Rightarrow>
          Some (s\<lparr>workers := (workers s)[i := WRecv],
                  distroCosts := (if 0 <s SumTimeTaken evgdc then distroCosts s @ [evgdc]
                                  else distroCosts s)\<rparr>)
      | WRecv \<Rightarrow>
          (case distros s of
             [] \<Rightarrow> Some (s\<lparr>workers := (workers s)[i := WDone]\<rparr>)
           | distro # rest \<Rightarrow>
               if ctxErr s then Some (s\<lparr>distros := rest, workers := (workers s)[i := WDone]\<rparr>)
               else (case lookup distro of (dc, err) \<Rightarrow>
                 Some (s\<lparr>distros := rest,
                         requested := requested s @ [distro],
                         catcher := catcherAdd (Wrap err lookupMsg) (catcher s),
                         workers := (workers s)[i := (case dc of None \<Rightarrow> WRecv
                                                      | Some d \<Rightarrow> WSend d)]\<rparr>))))"

fun step :: "(string \<Rightarrow> DistroCost result) \<Rightarrow> action \<Rightarrow> fetch \<Rightarrow> fetch option" where
  "step lookup (Step i) s = workerStep lookup i s"
| "step lookup Cancel s = Some (s\<lparr>ctxErr := True\<rparr>)"

fun run :: "(string \<Rightarrow> DistroCost result) \<Rightarrow> action list \<Rightarrow> fetch \<Rightarrow> fetch option" where
  "run lookup [] s = Some s"
| "run lookup (a # as) s =
     (case step lookup a s of None \<Rightarrow> None | Some s' \<Rightarrow> run lookup as s')"

text \<open>\<open>rand.Perm n\<close> is some permutation of \<open>0 ..< n\<close>.\<close>

definition isPerm :: "nat list \<Rightarrow> nat \<Rightarrow> bool" where
  "isPerm perm n = (sort perm = [0..<n])"

definition spawned :: "bool \<Rightarrow> string list \<Rightarrow> nat list \<Rightarrow> fetch" where
  "spawned cancelled distroIDs perm =
     \<lparr>distros = map (\<lambda>idx. distroIDs ! idx) perm,
      workers = replicate 16 WRecv,
      catcher = [],
      distroCosts = [],
      ctxErr = cancelled,
      requested = []\<rparr>"

text \<open>
  \<open>costs\<close> is closed once every worker has returned; then the draining loop ends and
  the function returns: nothing but the resolved catcher when it holds an error, the
  collected list otherwise.
\<close>

definition joined :: "fetch \<Rightarrow> bool" where
  "joined s = list_all (\<lambda>w. w = WDone) (workers s)"

definition returned :: "fetch \<Rightarrow> DistroCost list result" where
  "returned s =
     (if catcher s \<noteq> [] then (None, Some (ErrCatcher (catcher s)))
      else (Some (distroCosts s), None))"

text \<open>
  The state in which \<open>getDistroCosts\<close> returns, for a context that is cancelled at
  entry or not, the permutation drawn and a schedule; \<open>None\<close> when the permutation
  is none, when the schedule asks a worker that cannot move, or when it stops before
  every worker has returned.
\<close>

definition getDistroCostsRun ::
  "(string \<Rightarrow> DistroCost result) \<Rightarrow> bool \<Rightarrow> string list \<Rightarrow> nat list \<Rightarrow> action list
     \<Rightarrow> fetch option" where
  "getDistroCostsRun lookup cancelled distroIDs perm sched =
     (if \<not> isPerm perm (length distroIDs) then None
      else case run lookup sched (spawned cancelled distroIDs perm) of
        None \<Rightarrow> None
      | Some s \<Rightarrow> if joined s then Some s else None)"

definition getDistroCosts ::
  "(string \<Rightarrow> DistroCost result) \<Rightarrow> bool \<Rightarrow> string list \<Rightarrow> nat list \<Rightarrow> action list
     \<Rightarrow> DistroCost list result option" where
  "getDistroCosts lookup cancelled distroIDs perm sched =
     map_option returned (getDistroCostsRun lookup cancelled distroIDs perm sched)"

text \<open>What the lookups called so far have produced: their records and their errors.\<close>

definition obtained :: "(string \<Rightarrow> DistroCost result) \<Rightarrow> string list \<Rightarrow> DistroCost list" where
  "obtained lookup ds = List.map_filter (\<lambda>d. fst (lookup d)) ds"

definition failures :: "(string \<Rightarrow> DistroCost result) \<Rightarrow> string list \<Rightarrow> error list" where
  "failures lookup ds = List.map_filter (\<lambda>d. Wrap (snd (lookup d)) lookupMsg) ds"

subsection \<open>GetEvergreenDistrosData\<close>

text \<open>
  The result is given together with the routes requested from the API, in request
  order. The context, the permutation and the schedule are those of the worker pool.
\<close>

definition GetEvergreenDistrosData ::
  "Client \<Rightarrow> bool \<Rightarrow> nat list \<Rightarrow> action list \<Rightarrow> Time \<Rightarrow> Duration
     \<Rightarrow> (DistroCost list result \<times> string list) outcome option" where
  "GetEvergreenDistrosData c cancelled perm sched starttime duration =
     (let st = Format_RFC3339 starttime;
          dur = TrimRight (Duration_String duration) ''0s''
      in case getDistroIDs c of
           Panic \<Rightarrow> Some Panic
         | Return (distroIDs, Some err) \<Rightarrow>
             Some (Return ((None, Wrap (Some err)
                              ''error in getting distroID in GetEvergreenDistrosData''),
                           [''/distros'']))
         | Return (distroIDs, None) \<Rightarrow>
             (case getDistroCostsRun (\<lambda>distro. GetDistroCost c distro st dur) cancelled
                     (case distroIDs of None \<Rightarrow> [] | Some ids \<Rightarrow> ids) perm sched of
                None \<Rightarrow> None
              | Some s \<Rightarrow>
                  Some (Return
                    ((case returned s of
                        (dcs, Some err) \<Rightarrow>
                          (None, Wrap (Some err)
                             ''error in getting distro costs in GetEvergreenDistrosData'')
                      | (dcs, None) \<Rightarrow> (dcs, None)),
                     ''/distros'' # map (\<lambda>distro. costRoute distro st dur) (requested s)))))"

section \<open>The model package: the cost report and the application configuration\<close>

text \<open>
  An environment gives access to the session and the configuration of the document
  store; \<open>GetSessionWithConfig\<close> yields the database name, or fails, as it does for
  a nil environment. The collection behind a session holds one document per key.
  \<open>fault\<close> is the error with which the store answers an operation when it cannot
  serve it (connection lost, write rejected); \<open>None\<close> when it serves it.
\<close>

record Environment =
  session :: "error + string"

definition GetSessionWithConfig :: "Environment option \<Rightarrow> error + string" where
  "GetSessionWithConfig e =
     (case e of None \<Rightarrow> Inl (ErrNew ''env is nil'') | Some environment \<Rightarrow> session environment)"

record 'd Store =
  docs :: "string \<Rightarrow> 'd option"
  fault :: "error option"

text \<open>
  The two operations the sources call on a collection. \<open>UpsertId\<close> replaces the
  document under the key or inserts it, and tells in its change information which of
  the two happened. \<open>FindId(id).One\<close> yields the document, or the not-found error.
\<close>

record ChangeInfo =
  Updated :: nat
  UpsertedId :: "string option"

definition UpsertId :: "'d Store \<Rightarrow> string \<Rightarrow> 'd \<Rightarrow> ChangeInfo result \<times> 'd Store" where
  "UpsertId st key doc =
     (case fault st of
        Some err \<Rightarrow> ((None, Some err), st)
      | None \<Rightarrow>
          ((Some (if docs st key \<noteq> None then \<lparr>Updated = 1, UpsertedId = None\<rparr>
                  else \<lparr>Updated = 0, UpsertedId = Some key\<rparr>), None),
           st\<lparr>docs := (docs st)(key := Some doc)\<rparr>))"

definition FindIdOne :: "'d Store \<Rightarrow> string \<Rightarrow> 'd result" where
  "FindIdOne st key =
     (case fault st of
        Some err \<Rightarrow> (None, Some err)
      | None \<Rightarrow> (case docs st key of None \<Rightarrow> (None, Some ErrNotFound)
                 | Some doc \<Rightarrow> (Some doc, None)))"

subsection \<open>The cost report\<close>

type_synonym float32 = "32 word"
type_synonym goInt = "64 word"

record CostReportMetadata =
  Generated :: Time
  Begin :: Time
  End :: Time

record EvergreenTaskCost =
  Githash :: string
  Name :: string
  Distro :: string
  BuildVariant :: string
  TaskSeconds :: "64 word"

record EvergreenProjectCost =
  Name :: string
  Tasks :: "EvergreenTaskCost list"

record EvergreenDistroCost =
  Name :: string
  Provider :: string
  InstanceType :: string
  InstanceSeconds :: "64 word"

record EvergreenCost =
  Projects :: "EvergreenProjectCost list"
  Distros :: "EvergreenDistroCost list"

record ServiceItem =
  Name :: string
  ItemType :: string
  Launched :: goInt
  Terminated :: goInt
  FixedPrice :: float32
  AvgPrice :: float32
  AvgUptime :: float32
  TotalHours :: goInt

record AccountService =
  Name :: string
  Items :: "ServiceItem list"
  Cost :: float32

record CloudAccount =
  Name :: string
  Services :: "AccountService list"

record CloudProvider =
  Name :: string
  Accounts :: "CloudAccount list"
  Cost :: float32

record CostReport =
  ID :: string
  Report :: CostReportMetadata
  Evergreen :: EvergreenCost
  Providers :: "CloudProvider list"
  env :: "Environment option"
  populated :: bool

text \<open>
  What is written to the store and read back are the tagged fields; \<open>env\<close> and
  \<open>populated\<close> are unexported. The decoder of the store resets the receiver to its
  zero value before it fills the tagged fields, so after a document has been read
  into a report its \<open>env\<close> is nil and its \<open>populated\<close> is false.
\<close>

type_synonym CostReportDoc = "string \<times> CostReportMetadata \<times> EvergreenCost \<times> CloudProvider list"

definition encodeReport :: "CostReport \<Rightarrow> CostReportDoc" where
  "encodeReport r = (CostReport.ID r, Report r, Evergreen r, Providers r)"

definition decodeReport :: "CostReportDoc \<Rightarrow> CostReport \<Rightarrow> CostReport" where
  "decodeReport doc r =
     (case doc of (i, m, e, p) \<Rightarrow>
        r\<lparr>CostReport.ID := i, Report := m, Evergreen := e, Providers := p,
          CostReport.env := None, CostReport.populated := False\<rparr>)"

text \<open>The zero \<open>time.Time\<close> is 1 January of year 1, 00:00:00 UTC.\<close>

definition zeroTime :: Time where
  "zeroTime = \<lparr>unixNano = - 62135596800000000000, loc = UTC\<rparr>"

text \<open>A freshly constructed report, \<open>&CostReport{}\<close>: every field is zero.\<close>

definition newCostReport :: CostReport where
  "newCostReport =
     \<lparr>CostReport.ID = '''',
      Report = \<lparr>Generated = zeroTime, Begin = zeroTime, End = zeroTime\<rparr>,
      Evergreen = \<lparr>Projects = [], Distros = []\<rparr>, Providers = [],
      env = None, populated = False\<rparr>"

definition CostReport_Setup :: "CostReport \<Rightarrow> Environment \<Rightarrow> CostReport" where
  "CostReport_Setup r e = r\<lparr>CostReport.env := Some e\<rparr>"

definition CostReport_IsNil :: "CostReport \<Rightarrow> bool" where
  "CostReport_IsNil r = CostReport.populated r"

text \<open>
  \<open>FindID\<close> returns its error and leaves the receiver changed. When the query fails
  with an error other than not-found, the source wraps the error, drops the wrapped
  value and goes on to set \<open>populated\<close> and return nil.
\<close>

definition CostReport_FindID ::
  "CostReport \<Rightarrow> string \<Rightarrow> CostReportDoc Store \<Rightarrow> error option \<times> CostReport" where
  "CostReport_FindID r key st =
     (case GetSessionWithConfig (CostReport.env r) of
        Inl err \<Rightarrow> (WithStack (Some err), r)
      | Inr databaseName \<Rightarrow>
          (case FindIdOne st key of (found, err) \<Rightarrow>
             (let r1 = (case found of None \<Rightarrow> r\<lparr>CostReport.populated := False\<rparr>
                        | Some doc \<Rightarrow> decodeReport doc (r\<lparr>CostReport.populated := False\<rparr>))
              in if ResultsNotFound err then
                   (Some (ErrNew (''could not find cost reporting document '' @ key
                                    @ '' in the database'')), r1)
                 else (None, r1\<lparr>CostReport.populated := True\<rparr>))))"

text \<open>
  \<open>Save\<close> returns its error, the store after the call, and the debug messages it
  logged: the one message carries the key and the change information.
\<close>

definition CostReport_Save ::
  "CostReport \<Rightarrow> CostReportDoc Store
     \<Rightarrow> error option \<times> CostReportDoc Store \<times> (string \<times> ChangeInfo option) list" where
  "CostReport_Save r st =
     (case GetSessionWithConfig (CostReport.env r) of
        Inl err \<Rightarrow> (WithStack (Some err), st, [])
      | Inr databaseName \<Rightarrow>
          (case UpsertId st (CostReport.ID r) (encodeReport r) of ((changeInfo, err), st') \<Rightarrow>
             (if ResultsNotFound err then
                (Some (ErrNew ''could not find cost reporting document in the database''),
                 st', [(CostReport.ID r, changeInfo)])
              else (Wrap err ''problem saving cost reporting configuration'',
                    st', [(CostReport.ID r, changeInfo)]))))"

subsection \<open>The application configuration\<close>

typedecl SplunkConnectionInfo
typedecl SlackOptions

record SlackConfig =
  Options :: "SlackOptions option"
  Token :: string
  Level :: string

text \<open>Of the operational flags only the environment they carry is used here.\<close>

record OperationalFlags =
  flagsEnv :: "Environment option"

record CedarConfig =
  ID :: string
  Splunk :: SplunkConnectionInfo
  Slack :: SlackConfig
  Flags :: OperationalFlags
  populated :: bool
  env :: "Environment option"

definition cedarConfigurationID :: string where
  "cedarConfigurationID = ''cedar-system-configuration''"

type_synonym CedarConfigDoc = "string \<times> SplunkConnectionInfo \<times> SlackConfig \<times> OperationalFlags"

definition encodeConfig :: "CedarConfig \<Rightarrow> CedarConfigDoc" where
  "encodeConfig c = (CedarConfig.ID c, Splunk c, Slack c, Flags c)"

definition decodeConfig :: "CedarConfigDoc \<Rightarrow> CedarConfig \<Rightarrow> CedarConfig" where
  "decodeConfig doc c =
     (case doc of (i, sp, sl, fl) \<Rightarrow>
        c\<lparr>CedarConfig.ID := i, Splunk := sp, Slack := sl, Flags := fl,
          CedarConfig.populated := False, CedarConfig.env := None\<rparr>)"

definition CedarConfig_Setup :: "CedarConfig \<Rightarrow> Environment \<Rightarrow> CedarConfig" where
  "CedarConfig_Setup c e = c\<lparr>CedarConfig.env := Some e\<rparr>"

definition CedarConfig_IsNil :: "CedarConfig \<Rightarrow> bool" where
  "CedarConfig_IsNil c = (\<not> CedarConfig.populated c)"

definition CedarConfig_Find ::
  "CedarConfig \<Rightarrow> CedarConfigDoc Store \<Rightarrow> error option \<times> CedarConfig" where
  "CedarConfig_Find c st =
     (case GetSessionWithConfig (CedarConfig.env c) of
        Inl err \<Rightarrow> (WithStack (Some err), c)
      | Inr databaseName \<Rightarrow>
          (case FindIdOne st cedarConfigurationID of (found, err) \<Rightarrow>
             (let c1 = (case found of None \<Rightarrow> c\<lparr>CedarConfig.populated := False\<rparr>
                        | Some doc \<Rightarrow> decodeConfig doc (c\<lparr>CedarConfig.populated := False\<rparr>))
              in if ResultsNotFound err then
                   (Some (ErrNew ''could not find application configuration in the database''), c1)
                 else if err \<noteq> None then
                   (Wrap err ''problem finding app config document'', c1)
                 else (None, c1\<lparr>CedarConfig.populated := True,
                                 Flags := (Flags c1)\<lparr>flagsEnv := CedarConfig.env c1\<rparr>\<rparr>))))"

definition CedarConfig_Save ::
  "CedarConfig \<Rightarrow> CedarConfigDoc Store
     \<Rightarrow> error option \<times> CedarConfig \<times> CedarConfigDoc Store" where
  "CedarConfig_Save c st =
     (if \<not> CedarConfig.populated c then
        (Some (ErrNew ''cannot save a non-populated app configuration''), c, st)
      else (let c1 = c\<lparr>CedarConfig.ID := cedarConfigurationID\<rparr>
            in case GetSessionWithConfig (CedarConfig.env c1) of
                 Inl err \<Rightarrow> (WithStack (Some err), c1, st)
               | Inr databaseName \<Rightarrow>
                   (case UpsertId st cedarConfigurationID (encodeConfig c1) of
                      ((changeInfo, err), st') \<Rightarrow>
                        (Wrap err ''problem saving application configuration'', c1, st'))))"

section \<open>operations/cost.go\<close>

subsection \<open>The scheduler tick of collect\<close>

text \<open>
  The operation run on every tick reads the year, month, day and hour of \<open>t\<close> and
  builds \<open>lastHour\<close> from them in \<open>time.Local\<close>, with minute, second and
  nanosecond zero; the job ID is \<open>fmt.Sprintf("brc-%s", lastHour)\<close>, which prints
  the time with its \<open>String\<close> method. The closure does not declare \<open>t\<close>; it is
  the time of the tick here.
\<close>

definition lastHour :: "Location \<Rightarrow> Time \<Rightarrow> Time" where
  "lastHour Local t = Date (Year t) (Month t) (Day t) (Hour t) 0 0 0 Local"

definition jobID :: "Location \<Rightarrow> Time \<Rightarrow> string" where
  "jobID Local t = ''brc-'' @ Time_String (lastHour Local t)"

text \<open>
  The work queue is the collaborator of section 4.3 of the specification: it knows the
  IDs of the jobs it holds or has processed, and \<open>Put\<close> rejects a job whose ID it
  knows.
\<close>

definition Put :: "string \<Rightarrow> string list \<Rightarrow> error option \<times> string list" where
  "Put job queue =
     (if job \<in> set queue then (Some (ErrNew (''duplicate job '' @ job)), queue)
      else (None, queue @ [job]))"

text \<open>The tick: the job is put on the queue; a failure is logged and returned.\<close>

definition collectTick :: "Location \<Rightarrow> Time \<Rightarrow> string list \<Rightarrow> error option \<times> string list" where
  "collectTick Local t queue =
     (case Put (jobID Local t) queue of
        (Some err, queue') \<Rightarrow> (Some err, queue')
      | (None, queue') \<Rightarrow> (None, queue'))"

subsection \<open>The on-demand run of write\<close>

text \<open>
  Modelled from the spec: the cost configuration and its method \<open>GetDuration\<close> are
  not in the sources. Section 3: the configuration holds the reporting window defaults;
  section 4.2: the effective window is resolved from configuration or explicit
  override. The override is the duration asked for on the command line, absent when
  it is zero; the default is a duration, or the error of reading it.
\<close>

record CostConfig =
  windowDefault :: "error + Duration"

definition GetDuration :: "CostConfig \<Rightarrow> Duration \<Rightarrow> Duration \<times> error option" where
  "GetDuration conf dur =
     (if dur \<noteq> 0 then (dur, None)
      else case windowDefault conf of
             Inl err \<Rightarrow> (0, Some err)
           | Inr d \<Rightarrow> (d, None))"

text \<open>
  The collaborators of the report builder, each for a window: the usage breakdown the
  fetcher yields, the provider trees the billing collector yields, the identity of
  the reporting period, and the wall clock.
\<close>

record Collectors =
  fetched :: "Time \<Rightarrow> Duration \<Rightarrow> error + EvergreenCost"
  billed :: "Time \<Rightarrow> Duration \<Rightarrow> CostConfig \<Rightarrow> error + CloudProvider list"
  identity :: "Time \<Rightarrow> Duration \<Rightarrow> string"
  now :: Time

text \<open>
  Modelled from the spec: \<open>cost.CreateReport\<close> is not in the sources. Section 4.2:
  given the configuration, a time window and the outputs of the fetcher and of the
  billing collector, it produces a fully populated report or fails; any failure of
  the fetcher or of the collector aborts the build; \<open>Generated\<close> is stamped at
  build completion. Section 3: \<open>Begin\<close> and \<open>End\<close> define the reporting window.
\<close>

definition CreateReport ::
  "Collectors \<Rightarrow> Time \<Rightarrow> Duration \<Rightarrow> CostConfig \<Rightarrow> error + CostReport" where
  "CreateReport w start duration conf =
     (case fetched w start duration of
        Inl err \<Rightarrow> Inl err
      | Inr evg \<Rightarrow>
          (case billed w start duration conf of
             Inl err \<Rightarrow> Inl err
           | Inr providers \<Rightarrow>
               Inr \<lparr>CostReport.ID = identity w start duration,
                    Report = \<lparr>Generated = now w, Begin = start, End = Add start duration\<rparr>,
                    Evergreen = evg,
                    Providers = providers,
                    CostReport.env = None,
                    CostReport.populated = False\<rparr>))"

text \<open>
  Modelled from the spec: \<open>cost.WriteToFile\<close> is not in the sources. Section 4.4:
  the report is serialised to the file of the given name, and a repeated run overwrites
  the file at the same path. The JSON of a report holds its tagged fields, which are all
  but the ID. \<open>writeFault\<close> is the error of the file system when the write fails.
\<close>

type_synonym CostReportJSON = "CostReportMetadata \<times> EvergreenCost \<times> CloudProvider list"

record Files =
  files :: "string \<Rightarrow> CostReportJSON option"
  writeFault :: "error option"

definition WriteToFile :: "CostConfig \<Rightarrow> CostReport \<Rightarrow> string \<Rightarrow> Files \<Rightarrow> error option \<times> Files" where
  "WriteToFile conf report filename fs =
     (case writeFault fs of
        Some err \<Rightarrow> (Some err, fs)
      | None \<Rightarrow>
          (None, fs\<lparr>files := (files fs)(filename :=
                   Some (Report report, Evergreen report, Providers report))\<rparr>))"

definition writeCostReport ::
  "Collectors \<Rightarrow> CostConfig \<Rightarrow> Time \<Rightarrow> Duration \<Rightarrow> Files \<Rightarrow> error option \<times> Files" where
  "writeCostReport w conf start dur fs =
     (case GetDuration conf dur of
        (duration, Some err) \<Rightarrow> (Wrap (Some err) ''Problem with duration'', fs)
      | (duration, None) \<Rightarrow>
          (case CreateReport w start duration conf of
             Inl err \<Rightarrow> (Wrap (Some err) ''Problem generating report'', fs)
           | Inr report \<Rightarrow>
               (case WriteToFile conf report
                       (Format_fileDate (Begin (Report report)) @ ''.''
                          @ Duration_String duration @ ''.json'') fs of
                  (Some err, fs') \<Rightarrow> (Wrap (Some err) ''Problem printing report'', fs')
                | (None, fs') \<Rightarrow> (None, fs'))))"

section \<open>Notions used in the statements and proofs\<close>

text \<open>The filter of the draining loop, and the list a caller ranges over (nil is empty).\<close>

definition positive :: "DistroCost \<Rightarrow> bool" where
  "positive dc = (0 <s SumTimeTaken dc)"

definition outputList :: "DistroCost list result \<Rightarrow> DistroCost list" where
  "outputList res = (case fst res of None \<Rightarrow> [] | Some dcs \<Rightarrow> dcs)"

text \<open>The records that workers hold while blocked on \<open>costs\<close>.\<close>

fun sending :: "worker \<Rightarrow> DistroCost list" where
  "sending (WSend dc) = [dc]"
| "sending w = []"

definition pending :: "worker list \<Rightarrow> DistroCost list" where
  "pending ws = concat (map sending ws)"

text \<open>
  Every record obtained that passes the filter is either collected or still held by a
  blocked worker.
\<close>

definition delivered_ok :: "(string \<Rightarrow> DistroCost result) \<Rightarrow> fetch \<Rightarrow> bool" where
  "delivered_ok lookup s =
     (mset (filter positive (obtained lookup (requested s)))
        = mset (distroCosts s) + mset (filter positive (pending (workers s))))"

text \<open>
  While the context is live, every ID of the channel is either still in it or has been
  looked up, and no worker has returned before the channel was empty.
\<close>

definition conserved :: "string list \<Rightarrow> fetch \<Rightarrow> bool" where
  "conserved q s =
     (\<not> ctxErr s \<and> mset (requested s) + mset (distros s) = mset q
        \<and> (WDone \<in> set (workers s) \<longrightarrow> distros s = []))"

text \<open>
  One schedule under which the pool finishes: the first worker takes every ID and
  hands over every record, then each worker finds the channel empty (or the context
  cancelled) and returns.
\<close>

definition drainSchedule ::
  "(string \<Rightarrow> DistroCost result) \<Rightarrow> bool \<Rightarrow> string list \<Rightarrow> action list" where
  "drainSchedule lookup cancelled q =
     (if cancelled then []
      else concat (map (\<lambda>d. case fst (lookup d) of None \<Rightarrow> [Step 0]
                                | Some dc \<Rightarrow> [Step 0, Step 0]) q))
     @ map Step [0..<16]"

text \<open>A location whose offset never changes.\<close>

definition fixedZone :: "string \<Rightarrow> int \<Rightarrow> Location" where
  "fixedZone name offset = \<lparr>zoneAt = (\<lambda>sec. (name, offset)), wallOffset = (\<lambda>wall. offset)\<rparr>"

text \<open>
  The job identity in the words of section 4.3 of the specification,
  \<open>floor(now, 1 hour)\<close> in local time: the tick taken back to the last whole hour
  of the wall clock of its location. It is stated apart from \<open>lastHour\<close>, which is
  what the source computes, so that the two can be compared.
\<close>

definition truncateHour :: "Time \<Rightarrow> Time" where
  "truncateHour t =
     t\<lparr>unixNano := unixNano t - (absSec t mod 3600) * 1000000000
                      - unixNano t mod 1000000000\<rparr>"

text \<open>
  The offset \<open>time.Date\<close> settles on for a wall-clock reading in a location with
  clock changes: that of the zone in force at the reading taken as UTC and, when the
  reading taken back by that offset lies in another zone, that of the zone in force
  there.
\<close>

definition dateOffset :: "(int \<Rightarrow> string \<times> int) \<Rightarrow> int \<Rightarrow> int" where
  "dateOffset zone wall =
     (if snd (zone wall) = 0 then 0 else snd (zone (wall - snd (zone wall))))"

section \<open>Concrete inputs\<close>

text \<open>A client whose every response is paginated and whose request failed as well.\<close>

definition paginatedClient :: Client where
  "paginatedClient =
     \<lparr>get = (\<lambda>route. ('''', ''next'', Some (ErrNew ''connection reset''))),
      unmarshalDistros = (\<lambda>data. Inr (Some [])),
      unmarshalDistroCost = (\<lambda>data. Inr None)\<rparr>"

text \<open>
  The fetch scenario of the specification: distro \<open>a\<close> with 120 s and \<open>c\<close> with
  45 s on provider \<open>p1\<close>, distro \<open>b\<close> with no usage; and the same with the lookup
  of \<open>b\<close> failing.
\<close>

definition costA :: DistroCost where
  "costA = \<lparr>DistroCost.DistroID = ''a'', DistroCost.Provider = ''p1'',
            DistroCost.InstanceType = '''', SumTimeTaken = 120000000000,
            SumEstimatedCost = 0\<rparr>"

definition costB :: DistroCost where
  "costB = \<lparr>DistroCost.DistroID = ''b'', DistroCost.Provider = ''p2'',
            DistroCost.InstanceType = ''m4.large'', SumTimeTaken = 0,
            SumEstimatedCost = 0\<rparr>"

definition costC :: DistroCost where
  "costC = \<lparr>DistroCost.DistroID = ''c'', DistroCost.Provider = ''p1'',
            DistroCost.InstanceType = '''', SumTimeTaken = 45000000000,
            SumEstimatedCost = 0\<rparr>"

definition usage :: "string \<Rightarrow> DistroCost result" where
  "usage d =
     (if d = ''a'' then (Some costA, None)
      else if d = ''b'' then (Some costB, None)
      else if d = ''c'' then (Some costC, None)
      else (None, Some (ErrNew ''no such distro'')))"

definition usageBroken :: "string \<Rightarrow> DistroCost result" where
  "usageBroken d =
     (if d = ''a'' then (Some costA, None) else (None, Some (ErrNew ''timeout'')))"

text \<open>
  Schedules for these inputs. In \<open>schedAB\<close> worker 3 takes the first ID and worker 0
  the second, worker 0 hands its record over, and all return. In \<open>schedABC\<close> three
  workers take one ID each and hand over in another order. \<open>schedCancelled\<close> cancels
  the context before any worker moves.
\<close>

definition schedAB :: "action list" where
  "schedAB = [Step 3, Step 0, Step 0] @ map Step [0..<16]"

definition schedABC :: "action list" where
  "schedABC = [Step 5, Step 1, Step 2, Step 2, Step 5, Step 1] @ map Step [0..<16]"

definition schedOne :: "action list" where
  "schedOne = [Step 0, Step 0] @ map Step [0..<16]"

definition schedCancelled :: "action list" where
  "schedCancelled = Cancel # map Step [0..<16]"

definition schedSeq :: "action list" where
  "schedSeq = [Step 0, Step 0, Step 0, Step 0, Step 0, Step 0] @ map Step [0..<16]"

text \<open>The states in which these runs end.\<close>

definition doneBroken :: fetch where
  "doneBroken =
     \<lparr>distros = [], workers = replicate 16 WDone,
      catcher = [ErrWrap (ErrNew ''timeout'') lookupMsg],
      distroCosts = [costA], ctxErr = False, requested = [''b'', ''a'']\<rparr>"

definition doneABC :: fetch where
  "doneABC =
     \<lparr>distros = [], workers = replicate 16 WDone, catcher = [],
      distroCosts = [costC, costA], ctxErr = False, requested = [''c'', ''a'', ''b'']\<rparr>"

definition doneSeq :: fetch where
  "doneSeq =
     \<lparr>distros = [], workers = replicate 16 WDone, catcher = [],
      distroCosts = [costA, costC], ctxErr = False, requested = [''a'', ''b'', ''c'']\<rparr>"

definition doneOne :: fetch where
  "doneOne =
     \<lparr>distros = [], workers = replicate 16 WDone, catcher = [],
      distroCosts = [costA], ctxErr = False, requested = [''a'']\<rparr>"

definition doneCancelled :: fetch where
  "doneCancelled =
     \<lparr>distros = [], workers = replicate 16 WDone, catcher = [],
      distroCosts = [], ctxErr = True, requested = []\<rparr>"

text \<open>A client whose request for the distro list fails, without pagination.\<close>

definition failingClient :: Client where
  "failingClient =
     \<lparr>get = (\<lambda>route. ('''', '''', Some (ErrNew ''connection refused''))),
      unmarshalDistros = (\<lambda>data. Inr (Some [])),
      unmarshalDistroCost = (\<lambda>data. Inr None)\<rparr>"

text \<open>
  1 March 2024, 00:00 UTC, and a duration of two hours; two ticks of the scheduler at
  09:10:00 and 09:40:30 on that day in a zone five hours west of UTC.
\<close>

definition march1 :: Time where
  "march1 = \<lparr>unixNano = 1709251200000000000, loc = UTC\<rparr>"

definition twoHours :: Duration where
  "twoHours = 7200000000000"

definition EST :: Location where
  "EST = fixedZone ''EST'' (- 18000)"

definition tickA :: Time where
  "tickA = \<lparr>unixNano = 1709302200000000000, loc = EST\<rparr>"

definition tickB :: Time where
  "tickB = \<lparr>unixNano = 1709304030000000000, loc = EST\<rparr>"

text \<open>Collaborators that succeed with an empty breakdown, and an empty directory.\<close>

definition quietCollectors :: Collectors where
  "quietCollectors =
     \<lparr>fetched = (\<lambda>start duration. Inr \<lparr>Projects = [], Distros = []\<rparr>),
      billed = (\<lambda>start duration conf. Inr []),
      identity = (\<lambda>start duration. ''report''),
      now = \<lparr>unixNano = 1709260000000000000, loc = UTC\<rparr>\<rparr>"

definition hourlyConfig :: CostConfig where
  "hourlyConfig = \<lparr>windowDefault = Inr 3600000000000\<rparr>"

definition noFiles :: Files where
  "noFiles = \<lparr>files = (\<lambda>name. None), writeFault = None\<rparr>"

text \<open>
  A store that serves every operation and holds one report under the key \<open>r1\<close>; a
  second report with the same key and another window; a fresh report set up with a
  working environment.
\<close>

definition workingEnv :: Environment where
  "workingEnv = \<lparr>session = Inr ''cedar''\<rparr>"

definition reportOld :: CostReport where
  "reportOld = newCostReport\<lparr>CostReport.ID := ''r1'', CostReport.env := Some workingEnv\<rparr>"

definition reportNew :: CostReport where
  "reportNew =
     newCostReport\<lparr>CostReport.ID := ''r1'',
       Report := \<lparr>Generated = march1, Begin = march1, End = Add march1 twoHours\<rparr>,
       CostReport.env := Some workingEnv\<rparr>"

definition storeWithOld :: "CostReportDoc Store" where
  "storeWithOld = \<lparr>docs = (\<lambda>key. if key = ''r1'' then Some (encodeReport reportOld) else None),
                    fault = None\<rparr>"

definition freshReport :: CostReport where
  "freshReport = CostReport_Setup newCostReport workingEnv"

definition rejectingStore :: "CostReportDoc Store" where
  "rejectingStore = storeWithOld\<lparr>fault := Some (ErrNew ''write rejected'')\<rparr>"

text \<open>
  New York around the clock change of 3 November 2024: daylight time, four hours west
  of UTC, until 06:00 UTC, standard time from then on, so that the wall clock shows
  the hour from 01:00 to 02:00 twice. The two ticks are at 01:30 daylight time and at
  01:30 standard time, one hour later.
\<close>

definition newYorkZone :: "int \<Rightarrow> string \<times> int" where
  "newYorkZone sec = (if sec < 1730613600 then (''EDT'', - 14400) else (''EST'', - 18000))"

definition newYork :: Location where
  "newYork = \<lparr>zoneAt = newYorkZone, wallOffset = dateOffset newYorkZone\<rparr>"

definition tickDaylight :: Time where
  "tickDaylight = \<lparr>unixNano = 1730611800000000000, loc = newYork\<rparr>"

definition tickStandard :: Time where
  "tickStandard = \<lparr>unixNano = 1730615400000000000, loc = newYork\<rparr>"

section \<open>Properties of the worker pool\<close>

lemma run_invariant:
  assumes "run lookup sched s = Some s'" and "P s"
    and "\<And>a s s'. P s \<Longrightarrow> step lookup a s = Some s' \<Longrightarrow> P s'"
  shows "P s'"
  using assms(1,2)
proof (induction sched arbitrary: s)
  case Nil
  then show ?case by simp
next
  case (Cons a sched)
  then show ?case using assms(3) by (auto split: option.splits)
qed

lemma run_append:
  "run lookup (xs @ ys) s = (case run lookup xs s of None \<Rightarrow> None | Some s' \<Rightarrow> run lookup ys s')"
  by (induction xs arbitrary: s) (auto split: option.splits)

lemma failures_snoc:
  "failures lookup (ds @ [d]) = catcherAdd (Wrap (snd (lookup d)) lookupMsg) (failures lookup ds)"
  by (simp add: failures_def catcherAdd_def List.map_filter_def split: option.splits)

lemma obtained_snoc:
  "obtained lookup (ds @ [d]) = obtained lookup ds @ (case fst (lookup d) of None \<Rightarrow> [] | Some dc \<Rightarrow> [dc])"
  by (simp add: obtained_def List.map_filter_def split: option.splits)

lemma step_catcher:
  "step lookup a s = Some s' \<Longrightarrow> catcher s = failures lookup (requested s)
     \<Longrightarrow> catcher s' = failures lookup (requested s')"
  by (cases a)
     (auto simp: workerStep_def failures_snoc split: if_splits worker.splits list.splits prod.splits)

lemma pending_update:
  "i < length ws \<Longrightarrow>
     mset (pending (ws[i := w])) + mset (sending (ws ! i)) = mset (pending ws) + mset (sending w)"
proof (induction ws arbitrary: i)
  case Nil
  then show ?case by simp
next
  case (Cons x ws)
  show ?case
  proof (cases i)
    case 0
    then show ?thesis by (simp add: pending_def)
  next
    case (Suc j)
    with Cons.prems have "j < length ws" by simp
    from Cons.IH [OF this] show ?thesis using Suc by (simp add: pending_def)
  qed
qed

lemma pending_update_pos:
  assumes "i < length ws"
  shows "mset (filter positive (pending (ws[i := w]))) + mset (filter positive (sending (ws ! i)))
       = mset (filter positive (pending ws)) + mset (filter positive (sending w))"
proof -
  have "filter_mset positive (mset (pending (ws[i := w])) + mset (sending (ws ! i)))
      = filter_mset positive (mset (pending ws) + mset (sending w))"
    using pending_update [OF assms] by simp
  then show ?thesis by simp
qed

lemma step_delivered:
  assumes "step lookup a s = Some s'" and "delivered_ok lookup s"
  shows "delivered_ok lookup s'"
proof (cases a)
  case Cancel
  with assms show ?thesis by (auto simp: delivered_ok_def)
next
  case (Step i)
  with assms have ws: "workerStep lookup i s = Some s'" by simp
  then have i: "i < length (workers s)" by (auto simp: workerStep_def split: if_splits)
  show ?thesis
  proof (cases "workers s ! i")
    case WDone
    with ws i show ?thesis by (simp add: workerStep_def)
  next
    case (WSend dc)
    with ws i have s': "s' = s\<lparr>workers := (workers s)[i := WRecv],
        distroCosts := (if 0 <s SumTimeTaken dc then distroCosts s @ [dc] else distroCosts s)\<rparr>"
      by (simp add: workerStep_def)
    from pending_update_pos [OF i, of WRecv] WSend
    have "mset (filter positive (pending ((workers s)[i := WRecv]))) + mset (filter positive [dc])
        = mset (filter positive (pending (workers s)))" by simp
    with assms(2) show ?thesis unfolding delivered_ok_def s'
      by (auto simp: positive_def)
  next
    case WRecv
    show ?thesis
    proof (cases "distros s")
      case Nil
      with ws i WRecv have s': "s' = s\<lparr>workers := (workers s)[i := WDone]\<rparr>"
        by (simp add: workerStep_def)
      from pending_update_pos [OF i, of WDone] WRecv assms(2) show ?thesis
        unfolding delivered_ok_def s' by simp
    next
      case (Cons d rest)
      show ?thesis
      proof (cases "ctxErr s")
        case True
        with ws i WRecv Cons have s': "s' = s\<lparr>distros := rest, workers := (workers s)[i := WDone]\<rparr>"
          by (simp add: workerStep_def)
        from pending_update_pos [OF i, of WDone] WRecv assms(2) show ?thesis
          unfolding delivered_ok_def s' by simp
      next
        case False
        obtain dc err where lk: "lookup d = (dc, err)" by (cases "lookup d")
        with False ws i WRecv Cons have s': "s' = s\<lparr>distros := rest,
            requested := requested s @ [d],
            catcher := catcherAdd (Wrap err lookupMsg) (catcher s),
            workers := (workers s)[i := (case dc of None \<Rightarrow> WRecv | Some d \<Rightarrow> WSend d)]\<rparr>"
          by (simp add: workerStep_def)
        from pending_update_pos [OF i, of "case dc of None \<Rightarrow> WRecv | Some d \<Rightarrow> WSend d"] WRecv
        have "mset (filter positive (pending ((workers s)[i := (case dc of None \<Rightarrow> WRecv | Some d \<Rightarrow> WSend d)])))
            = mset (filter positive (pending (workers s)))
              + mset (filter positive (case dc of None \<Rightarrow> [] | Some d \<Rightarrow> [d]))"
          by (cases dc) simp_all
        with assms(2) lk show ?thesis unfolding delivered_ok_def s'
          by (simp add: obtained_snoc)
      qed
    qed
  qed
qed

lemma joined_pending: "joined s \<Longrightarrow> pending (workers s) = []"
  by (auto simp: joined_def pending_def list_all_iff)

lemma set_update_WDone:
  "WDone \<in> set (ws[i := w]) \<Longrightarrow> w \<noteq> WDone \<Longrightarrow> WDone \<in> set ws"
  by (metis insertE set_update_subset_insert subsetD)

lemma step_conserved:
  assumes "step lookup (Step i) s = Some s'" and "conserved q s"
  shows "conserved q s'"
proof -
  from assms have ws: "workerStep lookup i s = Some s'" by simp
  then have i: "i < length (workers s)" by (auto simp: workerStep_def split: if_splits)
  from assms(2) have nc: "\<not> ctxErr s" by (simp add: conserved_def)
  show ?thesis
  proof (cases "workers s ! i")
    case WDone
    with ws i show ?thesis by (simp add: workerStep_def)
  next
    case (WSend dc)
    with ws i have "requested s' = requested s" "distros s' = distros s" "ctxErr s' = ctxErr s"
      "workers s' = (workers s)[i := WRecv]"
      by (auto simp: workerStep_def)
    with assms(2) show ?thesis
      by (auto simp: conserved_def dest: set_update_WDone)
  next
    case WRecv
    show ?thesis
    proof (cases "distros s")
      case Nil
      with ws i WRecv have "s' = s\<lparr>workers := (workers s)[i := WDone]\<rparr>"
        by (simp add: workerStep_def)
      with assms(2) Nil show ?thesis by (simp add: conserved_def)
    next
      case (Cons d rest)
      obtain dc err where lk: "lookup d = (dc, err)" by (cases "lookup d")
      from Cons assms(2) have nd: "WDone \<notin> set (workers s)" by (auto simp: conserved_def)
      from lk nc ws i WRecv Cons have s': "requested s' = requested s @ [d]" "distros s' = rest"
        "ctxErr s' = ctxErr s"
        "workers s' = (workers s)[i := (case dc of None \<Rightarrow> WRecv | Some d \<Rightarrow> WSend d)]"
        by (auto simp: workerStep_def)
      have "WDone \<notin> set (workers s')"
        unfolding s' using nd by (cases dc) (auto dest: set_update_WDone)
      with assms(2) Cons s' show ?thesis by (auto simp: conserved_def)
    qed
  qed
qed

lemma run_conserved:
  "run lookup sched s = Some s' \<Longrightarrow> Cancel \<notin> set sched \<Longrightarrow> conserved q s \<Longrightarrow> conserved q s'"
proof (induction sched arbitrary: s)
  case Nil
  then show ?case by simp
next
  case (Cons a sched)
  from Cons.prems(2) obtain i where a: "a = Step i" by (cases a) auto
  from Cons.prems(1) a obtain s1 where s1: "step lookup (Step i) s = Some s1"
    and r: "run lookup sched s1 = Some s'"
    by (auto split: option.splits)
  from step_conserved [OF s1 Cons.prems(3)] Cons.IH [OF r] Cons.prems(2) show ?case by simp
qed

lemma step_idle:
  "step lookup a s = Some s' \<Longrightarrow> ctxErr s \<and> requested s = [] \<Longrightarrow> ctxErr s' \<and> requested s' = []"
  by (cases a) (auto simp: workerStep_def split: if_splits worker.splits list.splits prod.splits)

lemma isPerm_mset: "isPerm p (length ids) \<Longrightarrow> mset (map (\<lambda>idx. ids ! idx) p) = mset ids"
proof -
  assume "isPerm p (length ids)"
  then have "mset p = mset [0..<length ids]"
    unfolding isPerm_def by (metis mset_sort)
  then have "mset (map ((!) ids) p) = mset (map ((!) ids) [0..<length ids])"
    by (metis mset_map)
  then show ?thesis by (simp add: map_nth)
qed

lemma joined_workers: "joined s \<Longrightarrow> workers s \<noteq> [] \<Longrightarrow> WDone \<in> set (workers s)"
  by (cases "workers s") (auto simp: joined_def)

lemma step_length: "step lookup a s = Some s' \<Longrightarrow> length (workers s') = length (workers s)"
  by (cases a) (auto simp: workerStep_def split: if_splits worker.splits list.splits prod.splits)

lemma requested_all:
  assumes "getDistroCostsRun lookup False ids p sched = Some s" and "Cancel \<notin> set sched"
  shows "mset (requested s) = mset ids"
proof -
  let ?s0 = "spawned False ids p"
  from assms(1) have p: "isPerm p (length ids)" and r: "run lookup sched ?s0 = Some s" and j: "joined s"
    by (auto simp: getDistroCostsRun_def split: if_splits option.splits)
  have "conserved ids ?s0" using isPerm_mset [OF p]
    by (simp add: conserved_def spawned_def)
  from run_conserved [OF r assms(2) this] have c: "conserved ids s" .
  have "length (workers s) = length (workers ?s0)"
    by (rule run_invariant [OF r, where P = "\<lambda>t. length (workers t) = length (workers ?s0)"])
       (auto dest: step_length)
  then have "workers s \<noteq> []" by (auto simp: spawned_def)
  with j c show ?thesis by (auto simp: conserved_def dest: joined_workers)
qed

lemma requested_none:
  assumes "getDistroCostsRun lookup True ids p sched = Some s"
  shows "requested s = []"
proof -
  from assms have r: "run lookup sched (spawned True ids p) = Some s"
    by (auto simp: getDistroCostsRun_def split: if_splits option.splits)
  have "ctxErr s \<and> requested s = []"
    by (rule run_invariant [OF r, where P = "\<lambda>t. ctxErr t \<and> requested t = []"])
       (auto simp: spawned_def dest: step_idle)
  then show ?thesis by simp
qed

lemma final_state:
  assumes "getDistroCostsRun lookup c ids p sched = Some s"
  shows "catcher s = failures lookup (requested s)"
    and "mset (distroCosts s) = mset (filter positive (obtained lookup (requested s)))"
proof -
  let ?s0 = "spawned c ids p"
  from assms have r: "run lookup sched ?s0 = Some s" and j: "joined s"
    by (auto simp: getDistroCostsRun_def split: if_splits option.splits)
  show "catcher s = failures lookup (requested s)"
    by (rule run_invariant [OF r, where P = "\<lambda>t. catcher t = failures lookup (requested t)"])
       (auto simp: spawned_def failures_def List.map_filter_def dest: step_catcher)
  have "delivered_ok lookup s"
    by (rule run_invariant [OF r, where P = "delivered_ok lookup"])
       (auto simp: spawned_def delivered_ok_def obtained_def pending_def List.map_filter_def
             dest: step_delivered)
  with joined_pending [OF j]
  show "mset (distroCosts s) = mset (filter positive (obtained lookup (requested s)))"
    by (simp add: delivered_ok_def)
qed

lemma mset_map_filter:
  "mset xs = mset ys \<Longrightarrow> mset (List.map_filter f xs) = mset (List.map_filter f ys)"
proof -
  assume a: "mset xs = mset ys"
  have "\<And>zs. mset (List.map_filter f zs) = image_mset (the \<circ> f) (filter_mset (\<lambda>x. f x \<noteq> None) (mset zs))"
    by (simp add: List.map_filter_def)
  with a show ?thesis by simp
qed

lemma run_single_worker:
  assumes "workers s ! 0 = WRecv" and "workers s \<noteq> []" and "\<not> ctxErr s"
  shows "\<exists>s'. run lookup (concat (map (\<lambda>d. case fst (lookup d) of None \<Rightarrow> [Step 0]
                                | Some dc \<Rightarrow> [Step 0, Step 0]) (distros s))) s = Some s'
            \<and> distros s' = [] \<and> workers s' = workers s"
  using assms
proof (induction "distros s" arbitrary: s)
  case Nil
  then show ?case by simp
next
  case (Cons d rest)
  obtain dc err where lk: "lookup d = (dc, err)" by (cases "lookup d")
  from Cons.prems have len: "0 < length (workers s)" by simp
  show ?case
  proof (cases dc)
    case None
    let ?s1 = "s\<lparr>distros := rest, requested := requested s @ [d],
                 catcher := catcherAdd (Wrap err lookupMsg) (catcher s),
                 workers := (workers s)[0 := WRecv]\<rparr>"
    have st: "step lookup (Step 0) s = Some ?s1"
      using Cons.hyps(2) [symmetric] Cons.prems lk None len by (simp add: workerStep_def)
    have w: "(workers s)[0 := WRecv] = workers s"
      using Cons.prems(1) list_update_id [of "workers s" 0] by simp
    have "\<exists>s'. run lookup (concat (map (\<lambda>d. case fst (lookup d) of None \<Rightarrow> [Step 0]
                                | Some dc \<Rightarrow> [Step 0, Step 0]) (distros ?s1))) ?s1 = Some s'
            \<and> distros s' = [] \<and> workers s' = workers ?s1"
      by (rule Cons.hyps(1)) (use Cons.prems w in auto)
    then show ?thesis
      using st lk None w Cons.hyps(2) [symmetric] by auto
  next
    case (Some r)
    let ?s1 = "s\<lparr>distros := rest, requested := requested s @ [d],
                 catcher := catcherAdd (Wrap err lookupMsg) (catcher s),
                 workers := (workers s)[0 := WSend r]\<rparr>"
    let ?s2 = "?s1\<lparr>workers := (workers ?s1)[0 := WRecv],
                 distroCosts := (if 0 <s SumTimeTaken r then distroCosts ?s1 @ [r]
                                  else distroCosts ?s1)\<rparr>"
    have st1: "step lookup (Step 0) s = Some ?s1"
      using Cons.hyps(2) [symmetric] Cons.prems lk Some len by (simp add: workerStep_def)
    have st2: "step lookup (Step 0) ?s1 = Some ?s2"
      using len by (simp add: workerStep_def)
    have w: "workers ?s2 = workers s"
      using Cons.prems(1) list_update_id [of "workers s" 0] by simp
    have "\<exists>s'. run lookup (concat (map (\<lambda>d. case fst (lookup d) of None \<Rightarrow> [Step 0]
                                | Some dc \<Rightarrow> [Step 0, Step 0]) (distros ?s2))) ?s2 = Some s'
            \<and> distros s' = [] \<and> workers s' = workers ?s2"
      by (rule Cons.hyps(1)) (use Cons.prems w in auto)
    then show ?thesis
      using st1 st2 lk Some w Cons.hyps(2) [symmetric] by auto
  qed
qed

lemma run_all_return:
  assumes "workers s = replicate k WDone @ replicate m WRecv" and "distros s = [] \<or> ctxErr s"
  shows "\<exists>s'. run lookup (map Step [k..<k + m]) s = Some s' \<and> workers s' = replicate (k + m) WDone"
  using assms
proof (induction m arbitrary: k s)
  case 0
  then show ?case by simp
next
  case (Suc m)
  let ?ws = "replicate (Suc k) WDone @ replicate m WRecv"
  have at: "workers s ! k = WRecv" and len: "k < length (workers s)"
    using Suc.prems(1) by (simp_all add: nth_append)
  have upd: "(workers s)[k := WDone] = ?ws"
    using Suc.prems(1) by (simp add: list_update_append replicate_append_same)
  obtain s1 where st: "step lookup (Step k) s = Some s1" and w1: "workers s1 = ?ws"
    and d1: "distros s1 = [] \<or> ctxErr s1"
    using Suc.prems(2) at len upd
    by (cases "distros s") (auto simp: workerStep_def)
  from Suc.IH [OF w1 d1] obtain s' where
    "run lookup (map Step [Suc k..<Suc k + m]) s1 = Some s'" "workers s' = replicate (Suc k + m) WDone"
    by blast
  moreover have "[k..<k + Suc m] = k # [Suc k..<Suc k + m]"
    by (simp add: upt_conv_Cons)
  ultimately show ?case using st by simp
qed

lemma getDistroCosts_returns:
  assumes "isPerm p (length ids)"
  shows "\<exists>s. getDistroCostsRun lookup c ids p
                (drainSchedule lookup c (map (\<lambda>idx. ids ! idx) p)) = Some s"
proof -
  let ?q = "map (\<lambda>idx. ids ! idx) p"
  let ?s0 = "spawned c ids p"
  let ?pre = "if c then [] else concat (map (\<lambda>d. case fst (lookup d) of None \<Rightarrow> [Step 0]
                                | Some dc \<Rightarrow> [Step 0, Step 0]) ?q)"
  have "\<exists>s1. run lookup ?pre ?s0 = Some s1 \<and> workers s1 = workers ?s0
           \<and> (distros s1 = [] \<or> ctxErr s1)"
  proof (cases c)
    case True
    then show ?thesis by (simp add: spawned_def)
  next
    case False
    have "\<exists>s'. run lookup (concat (map (\<lambda>d. case fst (lookup d) of None \<Rightarrow> [Step 0]
                                | Some dc \<Rightarrow> [Step 0, Step 0]) (distros ?s0))) ?s0 = Some s'
            \<and> distros s' = [] \<and> workers s' = workers ?s0"
      by (rule run_single_worker) (use False in \<open>simp_all add: spawned_def\<close>)
    moreover have "distros ?s0 = ?q" by (simp add: spawned_def)
    ultimately show ?thesis using False by auto
  qed
  then obtain s1 where r1: "run lookup ?pre ?s0 = Some s1"
    and w1: "workers s1 = replicate 0 WDone @ replicate 16 WRecv"
    and d1: "distros s1 = [] \<or> ctxErr s1"
    by (auto simp: spawned_def)
  from run_all_return [OF w1 d1] obtain s2 where
    r2: "run lookup (map Step [0..<16]) s1 = Some s2" and w2: "workers s2 = replicate 16 WDone"
    by auto
  have "run lookup (drainSchedule lookup c ?q) ?s0 = Some s2"
    using r1 r2 by (simp add: drainSchedule_def run_append)
  moreover have "joined s2" using w2 by (simp add: joined_def list_all_iff)
  ultimately show ?thesis using assms by (simp add: getDistroCostsRun_def)
qed

lemma failures_nonempty:
  "d \<in> set ds \<Longrightarrow> snd (lookup d) \<noteq> None \<Longrightarrow> failures lookup ds \<noteq> []"
  by (induction ds) (auto simp: failures_def List.map_filter_def)

section \<open>The concrete runs\<close>

lemmas pool_eval = getDistroCostsRun_def isPerm_def spawned_def workerStep_def
  joined_def catcherAdd_def upt_rec numeral_eq_Suc word_sless_alt

lemma run_broken:
  "getDistroCostsRun usageBroken False [''a'', ''b''] [1, 0] schedAB = Some doneBroken"
  by (simp add: pool_eval schedAB_def usageBroken_def costA_def doneBroken_def)

lemma run_scenario:
  "getDistroCostsRun usage False [''a'', ''b'', ''c''] [2, 0, 1] schedABC = Some doneABC"
  by (simp add: pool_eval schedABC_def usage_def costA_def costB_def costC_def doneABC_def)

lemma run_scenario_seq:
  "getDistroCostsRun usage False [''a'', ''b'', ''c''] [0, 1, 2] schedSeq = Some doneSeq"
  by (simp add: pool_eval schedSeq_def usage_def costA_def costB_def costC_def doneSeq_def)

lemma run_one:
  "getDistroCostsRun usage False [''a''] [0] schedOne = Some doneOne"
  by (simp add: pool_eval schedOne_def usage_def costA_def doneOne_def)

lemma run_cancelled:
  "getDistroCostsRun usage False [''a''] [0] schedCancelled = Some doneCancelled"
  by (simp add: pool_eval schedCancelled_def usage_def costA_def doneCancelled_def)

lemma costs_distinct: "costA \<noteq> costB" "costB \<noteq> costC" "costA \<noteq> costC"
  by (simp_all add: costA_def costB_def costC_def)

lemma costs_positive:
  "0 <s SumTimeTaken costA" "\<not> 0 <s SumTimeTaken costB" "0 <s SumTimeTaken costC"
  by (simp_all add: costA_def costB_def costC_def word_sless_alt)

section \<open>Evaluating dates and durations\<close>

lemmas civil_eval = civil_def civilCentury_def civilCycle_def civilYear_def civilDoy_def civilOf_def
  daysFromCivil_def daysOf_def

lemmas digit_eval = fmtInt_def digits.simps digitChar_def appendInt_def zeroPad_def

lemmas field_eval = Year_def Month_def Day_def Hour_def Minute_def Second_def Nanosecond_def
  absSec_def

lemma twoHours_String: "Duration_String twoHours = ''2h0m0s''"
  by (simp add: Duration_String_def twoHours_def word_sless_alt fmtFrac.simps Let_def digit_eval)

lemma march1_fields:
  "Year march1 = 2024" "Month march1 = 3" "Day march1 = 1" "Hour march1 = 0" "Minute march1 = 0"
  by (simp_all add: march1_def UTC_def field_eval civil_eval)

lemma march1_fileDate: "Format_fileDate march1 = ''2024-03-01-00-00''"
  by (simp add: Format_fileDate_def ymd_def march1_fields digit_eval)

lemma tick_fields:
  "Year tickA = 2024" "Month tickA = 3" "Day tickA = 1" "Hour tickA = 9"
  "Year tickB = 2024" "Month tickB = 3" "Day tickB = 1" "Hour tickB = 9"
  by (simp_all add: tickA_def tickB_def EST_def fixedZone_def field_eval civil_eval)

lemma nine_est: "Date 2024 3 1 9 0 0 0 EST = \<lparr>unixNano = 1709301600000000000, loc = EST\<rparr>"
  by (simp add: Date_def atWall_def wallClock_def civil_eval EST_def fixedZone_def)

lemma nine_est_fields:
  "ymd \<lparr>unixNano = 1709301600000000000, loc = EST\<rparr> = ''2024-03-01''"
  "clock \<lparr>unixNano = 1709301600000000000, loc = EST\<rparr> = ''09:00:00''"
  "appendNano (Nanosecond \<lparr>unixNano = 1709301600000000000, loc = EST\<rparr>) = []"
  "zoneAt EST sec = (''EST'', - 18000)"
  "numTZ False (- 18000) = ''-0500''"
  by (simp_all add: ymd_def clock_def appendNano_def numTZ_def quot_def EST_def fixedZone_def
        field_eval civil_eval digit_eval)

lemma nine_est_String:
  "Time_String \<lparr>unixNano = 1709301600000000000, loc = EST\<rparr> = ''2024-03-01 09:00:00 -0500 EST''"
  by (simp add: Time_String_def nine_est_fields)

lemma newYork_fields:
  "Year tickDaylight = 2024" "Month tickDaylight = 11" "Day tickDaylight = 3" "Hour tickDaylight = 1"
  "Year tickStandard = 2024" "Month tickStandard = 11" "Day tickStandard = 3" "Hour tickStandard = 1"
  by (simp_all add: tickDaylight_def tickStandard_def newYork_def newYorkZone_def field_eval
        civil_eval)

lemma newYork_one: "Date 2024 11 3 1 0 0 0 newYork = \<lparr>unixNano = 1730610000000000000, loc = newYork\<rparr>"
  by (simp add: Date_def atWall_def wallClock_def civil_eval newYork_def newYorkZone_def
        dateOffset_def)

lemma newYork_one_fields:
  "ymd \<lparr>unixNano = 1730610000000000000, loc = newYork\<rparr> = ''2024-11-03''"
  "clock \<lparr>unixNano = 1730610000000000000, loc = newYork\<rparr> = ''01:00:00''"
  "appendNano (Nanosecond \<lparr>unixNano = 1730610000000000000, loc = newYork\<rparr>) = []"
  "zoneAt newYork 1730610000 = (''EDT'', - 14400)"
  "numTZ False (- 14400) = ''-0400''"
  by (simp_all add: ymd_def clock_def appendNano_def numTZ_def quot_def newYork_def
        newYorkZone_def field_eval civil_eval digit_eval)

lemma newYork_one_String:
  "Time_String \<lparr>unixNano = 1730610000000000000, loc = newYork\<rparr>
     = ''2024-11-03 01:00:00 -0400 EDT''"
  by (simp add: Time_String_def newYork_one_fields)

lemma newYork_floor:
  "truncateHour tickStandard = \<lparr>unixNano = 1730613600000000000, loc = newYork\<rparr>"
  by (simp add: truncateHour_def tickStandard_def absSec_def newYork_def newYorkZone_def)

lemma newYork_floor_fields:
  "ymd \<lparr>unixNano = 1730613600000000000, loc = newYork\<rparr> = ''2024-11-03''"
  "clock \<lparr>unixNano = 1730613600000000000, loc = newYork\<rparr> = ''01:00:00''"
  "appendNano (Nanosecond \<lparr>unixNano = 1730613600000000000, loc = newYork\<rparr>) = []"
  "zoneAt newYork 1730613600 = (''EST'', - 18000)"
  "numTZ False (- 18000) = ''-0500''"
  by (simp_all add: ymd_def clock_def appendNano_def numTZ_def quot_def newYork_def
        newYorkZone_def field_eval civil_eval digit_eval)

lemma newYork_floor_String:
  "Time_String (truncateHour tickStandard) = ''2024-11-03 01:00:00 -0500 EST''"
  by (simp add: newYork_floor Time_String_def newYork_floor_fields)

lemma tickA_floor:
  "truncateHour tickA = \<lparr>unixNano = 1709301600000000000, loc = EST\<rparr>"
  by (simp add: truncateHour_def tickA_def absSec_def EST_def fixedZone_def)

section \<open>Two saves under one key\<close>

lemma save_twice:
  assumes "CostReport_Save r1 st = (None, st1, d1)" and "CostReport_Save r2 st1 = (None, st2, d2)"
    and "CostReport.ID r1 = CostReport.ID r2"
  shows "docs st2 = (docs st)(CostReport.ID r2 := Some (encodeReport r2))"
proof -
  have "docs st1 = (docs st)(CostReport.ID r1 := Some (encodeReport r1))"
    using assms(1)
    by (auto simp: CostReport_Save_def UpsertId_def split: sum.splits option.splits if_splits)
  moreover have "docs st2 = (docs st1)(CostReport.ID r2 := Some (encodeReport r2))"
    using assms(2)
    by (auto simp: CostReport_Save_def UpsertId_def split: sum.splits option.splits if_splits)
  ultimately show ?thesis using assms(3) by simp
qed

section \<open>The calendar functions are inverse to each other\<close>

lemma civilDoy_inverse:
  assumes "0 \<le> doy" and "doy \<le> 365" and "0 \<le> yoe" and "yoe < 400"
    and "civilDoy era yoe doy = (y, m, d)"
  shows "daysFromCivil y m d
           = era * 146097 + 365 * yoe + yoe div 4 - yoe div 100 + doy - 719468
         \<and> 1 \<le> m \<and> m \<le> 12"
proof -
  define mp where "mp = (5 * doy + 2) div 153"
  have mp: "0 \<le> mp" "mp \<le> 11" using assms(1,2) unfolding mp_def by arith+
  have q: "(yoe + era * 400) div 400 = era" "(yoe + era * 400) mod 400 = yoe"
    using assms(3,4) by simp_all
  show ?thesis
  proof (cases "mp < 10")
    case True
    with assms(5) have "y = yoe + era * 400" "m = mp + 3" "d = doy - (153 * mp + 2) div 5 + 1"
      by (simp_all add: civilDoy_def civilOf_def mp_def)
    with mp True q show ?thesis by (simp add: daysFromCivil_def daysOf_def)
  next
    case False
    with assms(5) have "y = yoe + era * 400 + 1" "m = mp - 9" "d = doy - (153 * mp + 2) div 5 + 1"
      by (simp_all add: civilDoy_def civilOf_def mp_def)
    with mp False q show ?thesis by (simp add: daysFromCivil_def daysOf_def)
  qed
qed


lemma civilYear_inverse:
  assumes "0 \<le> d3" and "d3 \<le> 1460" and "0 \<le> n4" and "n4 \<le> 24"
    and "0 \<le> n100" and "n100 \<le> 3"
    and "civilYear era n100 n4 d3 = (y, m, d)"
  shows "daysFromCivil y m d = era * 146097 + 36524 * n100 + 1461 * n4 + d3 - 719468
         \<and> 1 \<le> m \<and> m \<le> 12"
proof -
  define n1 where "n1 = min 3 (d3 div 365)"
  define yoe where "yoe = 100 * n100 + 4 * n4 + n1"
  define doy where "doy = d3 - 365 * n1"
  have n1: "0 \<le> n1" "n1 \<le> 3" using assms(1) unfolding n1_def by simp_all
  have doy: "0 \<le> doy" "doy \<le> 365" using assms(1,2) unfolding doy_def n1_def by arith+
  have yoe: "0 \<le> yoe" "yoe < 400" using n1 assms(3-6) unfolding yoe_def by arith+
  have d4: "yoe div 4 = 25 * n100 + n4" using n1 unfolding yoe_def by arith
  have d100: "yoe div 100 = n100" using n1 assms(3,4) unfolding yoe_def by arith
  have c: "civilDoy era yoe doy = (y, m, d)"
    using assms(7) by (simp add: civilYear_def yoe_def doy_def n1_def)
  from civilDoy_inverse [OF doy yoe c] d4 d100 show ?thesis
    by (simp add: yoe_def doy_def)
qed

lemma civilCentury_inverse:
  assumes "0 \<le> doe" and "doe < 146097" and "civilCentury era doe = (y, m, d)"
  shows "daysFromCivil y m d = era * 146097 + doe - 719468 \<and> 1 \<le> m \<and> m \<le> 12"
proof -
  define n100 where "n100 = min 3 (doe div 36524)"
  define d2 where "d2 = doe - 36524 * n100"
  have n100: "0 \<le> n100" "n100 \<le> 3" using assms(1) unfolding n100_def by simp_all
  have d2: "0 \<le> d2" "d2 \<le> 36524" using assms(1,2) unfolding d2_def n100_def by arith+
  have n4: "0 \<le> d2 div 1461" "d2 div 1461 \<le> 24" using d2 by arith+
  have d3: "0 \<le> d2 mod 1461" "d2 mod 1461 \<le> 1460" by simp_all
  have c: "civilYear era n100 (d2 div 1461) (d2 mod 1461) = (y, m, d)"
    using assms(3) by (simp add: civilCentury_def civilCycle_def n100_def d2_def)
  have "1461 * (d2 div 1461) + d2 mod 1461 = d2" by simp
  with civilYear_inverse [OF d3 n4 n100 c] show ?thesis
    by (simp add: d2_def)
qed

lemma civil_inverse:
  assumes "civil z = (y, m, d)"
  shows "daysFromCivil y m d = z \<and> 1 \<le> m \<and> m \<le> 12"
proof -
  have r: "0 \<le> (z + 719468) mod 146097" "(z + 719468) mod 146097 < 146097" by simp_all
  have c: "civilCentury ((z + 719468) div 146097) ((z + 719468) mod 146097) = (y, m, d)"
    using assms by (simp add: civil_def)
  have "(z + 719468) div 146097 * 146097 + (z + 719468) mod 146097 = z + 719468" by simp
  with civilCentury_inverse [OF r c] show ?thesis by simp
qed

section \<open>When the hour built by the scheduler is the tick truncated to the hour\<close>

lemma hour_floor:
  "(a div 86400) * 86400 + (a mod 86400 div 3600) * 3600 = a - a mod 3600" for a :: int
proof -
  have "a mod 86400 mod 3600 = a mod 3600"
    by (rule mod_mod_cancel) simp
  moreover have "a mod 86400 = (a mod 86400 div 3600) * 3600 + a mod 86400 mod 3600"
    by simp
  moreover have "a = (a div 86400) * 86400 + a mod 86400" by simp
  ultimately show ?thesis by linarith
qed

lemma lastHour_truncates:
  assumes "loc t = L"
    and "wallOffset L (absSec t - absSec t mod 3600) = snd (zoneAt L (unixNano t div 1000000000))"
  shows "lastHour L t = truncateHour t"
proof -
  obtain y m d where c: "civil (absSec t div 86400) = (y, m, d)"
    by (cases "civil (absSec t div 86400)")
  from civil_inverse [OF c] have inv: "daysFromCivil y m d = absSec t div 86400"
    and m: "1 \<le> m" "m \<le> 12" by simp_all
  from m have n: "(m - 1) div 12 = 0" "(m - 1) mod 12 + 1 = m" by simp_all
  have f: "Year t = y" "Month t = m" "Day t = d"
    using c by (simp_all add: Year_def Month_def Day_def)
  have w: "wallClock y m d (Hour t) 0 0 0 = absSec t - absSec t mod 3600"
    using n inv hour_floor [of "absSec t"] by (simp add: wallClock_def Hour_def)
  have a: "absSec t = unixNano t div 1000000000 + snd (zoneAt L (unixNano t div 1000000000))"
    using assms(1) by (simp add: absSec_def)
  have u: "unixNano t = (unixNano t div 1000000000) * 1000000000 + unixNano t mod 1000000000"
    by simp
  have "unixNano (lastHour L t)
      = (absSec t - absSec t mod 3600 - snd (zoneAt L (unixNano t div 1000000000))) * 1000000000"
    using w assms(2) by (simp add: lastHour_def Date_def atWall_def f)
  also have "\<dots> = (unixNano t div 1000000000 - absSec t mod 3600) * 1000000000"
    using a by simp
  also have "\<dots> = unixNano t - (absSec t mod 3600) * 1000000000 - unixNano t mod 1000000000"
    using u by (simp add: algebra_simps)
  finally have "unixNano (lastHour L t) = unixNano (truncateHour t)"
    by (simp add: truncateHour_def)
  moreover have "loc (lastHour L t) = loc (truncateHour t)"
    using assms(1) by (simp add: lastHour_def Date_def atWall_def truncateHour_def)
  ultimately show ?thesis by simp
qed

lemma fixedZone_resolves:
  "wallOffset (fixedZone name offset) wall = snd (zoneAt (fixedZone name offset) sec)"
  by (simp add: fixedZone_def)

section \<open>All-or-nothing fetch\<close>

text \<open>
  The pool finishes under some schedule, whatever the IDs, the lookups and the state
  of the context: \<open>getDistroCosts\<close> returns (lemma \<open>getDistroCosts_returns\<close>).

  C1. In every run of \<open>getDistroCosts\<close>, under every schedule and whether or not the
  context is cancelled on the way: if a lookup that was made returned an error, the
  function returns a nil list together with one error, the resolved catcher, which
  holds the wrapped error of every failed lookup; whenever an error is returned the
  list is nil, also when other lookups succeeded; and when the context is never
  cancelled every ID is looked up, so one ID whose lookup fails is enough.
\<close>

theorem fetch_all_or_nothing:
  assumes "getDistroCostsRun lookup cancelled distroIDs perm sched = Some s"
  shows "((\<exists>d \<in> set (requested s). snd (lookup d) \<noteq> None) \<longrightarrow>
            getDistroCosts lookup cancelled distroIDs perm sched
              = Some (None, Some (ErrCatcher (failures lookup (requested s)))))
       \<and> (\<forall>res err. getDistroCosts lookup cancelled distroIDs perm sched = Some (res, Some err)
             \<longrightarrow> res = None)
       \<and> (\<not> cancelled \<and> Cancel \<notin> set sched \<and> (\<exists>d \<in> set distroIDs. snd (lookup d) \<noteq> None) \<longrightarrow>
            (\<exists>err. getDistroCosts lookup cancelled distroIDs perm sched = Some (None, Some err)))"
proof (intro conjI)
  have c: "catcher s = failures lookup (requested s)"
    using final_state(1) [OF assms] .
  have g: "getDistroCosts lookup cancelled distroIDs perm sched = Some (returned s)"
    using assms by (simp add: getDistroCosts_def)
  have f: "getDistroCosts lookup cancelled distroIDs perm sched
              = Some (None, Some (ErrCatcher (failures lookup (requested s))))"
    if "d \<in> set (requested s)" and "snd (lookup d) \<noteq> None" for d
  proof -
    from that have "failures lookup (requested s) \<noteq> []" by (rule failures_nonempty)
    with c g show ?thesis by (simp add: returned_def)
  qed
  show "(\<exists>d \<in> set (requested s). snd (lookup d) \<noteq> None) \<longrightarrow>
            getDistroCosts lookup cancelled distroIDs perm sched
              = Some (None, Some (ErrCatcher (failures lookup (requested s))))"
    using f by blast
  show "\<forall>res err. getDistroCosts lookup cancelled distroIDs perm sched = Some (res, Some err)
             \<longrightarrow> res = None"
    unfolding g by (simp add: returned_def)
  show "\<not> cancelled \<and> Cancel \<notin> set sched \<and> (\<exists>d \<in> set distroIDs. snd (lookup d) \<noteq> None) \<longrightarrow>
            (\<exists>err. getDistroCosts lookup cancelled distroIDs perm sched = Some (None, Some err))"
  proof (intro impI, elim conjE bexE)
    fix d
    assume nc: "\<not> cancelled" and ns: "Cancel \<notin> set sched"
      and d: "d \<in> set distroIDs" and e: "snd (lookup d) \<noteq> None"
    from nc assms have "getDistroCostsRun lookup False distroIDs perm sched = Some s" by simp
    from requested_all [OF this ns] have "set (requested s) = set distroIDs"
      by (rule mset_eq_setD)
    with d have "d \<in> set (requested s)" by simp
    from f [OF this e]
    show "\<exists>err. getDistroCosts lookup cancelled distroIDs perm sched = Some (None, Some err)"
      by (rule exI [where x = "ErrCatcher (failures lookup (requested s))"])
  qed
qed
theorem fetch_all_or_nothing_witness:
  "getDistroCostsRun usageBroken False [''a'', ''b''] [1, 0] schedAB = Some doneBroken
   \<and> ''b'' \<in> set (requested doneBroken) \<and> snd (usageBroken ''b'') \<noteq> None
   \<and> Cancel \<notin> set schedAB \<and> ''b'' \<in> set [''a'', ''b'']
   \<and> fst (usageBroken ''a'') = Some costA
   \<and> getDistroCosts usageBroken False [''a'', ''b''] [1, 0] schedAB
       = Some (None, Some (ErrCatcher [ErrWrap (ErrNew ''timeout'') lookupMsg]))"
proof -
  have q: "''b'' \<in> set (requested doneBroken)" by (simp add: doneBroken_def)
  have e: "snd (usageBroken ''b'') \<noteq> None" "fst (usageBroken ''a'') = Some costA"
    by (simp_all add: usageBroken_def)
  have n: "Cancel \<notin> set schedAB" by (auto simp: schedAB_def)
  have f: "failures usageBroken (requested doneBroken) = [ErrWrap (ErrNew ''timeout'') lookupMsg]"
    by (simp add: failures_def List.map_filter_def usageBroken_def doneBroken_def)
  from fetch_all_or_nothing [OF run_broken] q e(1)
  have "getDistroCosts usageBroken False [''a'', ''b''] [1, 0] schedAB
       = Some (None, Some (ErrCatcher (failures usageBroken (requested doneBroken))))"
    by blast
  with f run_broken q e n show ?thesis by simp
qed

section \<open>Zero-usage filtering\<close>

text \<open>
  C2, as stated, fails: a record obtained during a fetch with a strictly positive
  summed time does not appear in the output when another lookup of the same fetch
  failed, because then the output is nil. Here the lookup of \<open>a\<close> yields a record
  of 120 s and the lookup of \<open>b\<close> fails.
\<close>

theorem filter_iff_counterexample:
  "getDistroCostsRun usageBroken False [''a'', ''b''] [1, 0] schedAB = Some doneBroken
   \<and> costA \<in> set (obtained usageBroken (requested doneBroken))
   \<and> \<not> (costA \<in> set (outputList (returned doneBroken)) \<longleftrightarrow> 0 <s SumTimeTaken costA)"
proof -
  have o: "obtained usageBroken (requested doneBroken) = [costA]"
    by (simp add: obtained_def List.map_filter_def usageBroken_def doneBroken_def)
  have r: "outputList (returned doneBroken) = []"
    by (simp add: returned_def outputList_def doneBroken_def)
  show ?thesis using run_broken o r costs_positive(1) by simp
qed

text \<open>
  C2, amended. In every fetch that returns no error, a record obtained during the
  fetch appears in the output list if and only if its summed time-taken is strictly
  positive; and in every fetch, whatever it returns, every record of the output was
  obtained during the fetch and has a strictly positive summed time-taken, so a record
  whose summed time-taken is zero never appears, whatever its other fields.
\<close>

theorem filter_positive_usage:
  assumes "getDistroCostsRun lookup cancelled distroIDs perm sched = Some s"
  shows "(snd (returned s) = None \<longrightarrow>
            (\<forall>dc \<in> set (obtained lookup (requested s)).
               dc \<in> set (outputList (returned s)) \<longleftrightarrow> 0 <s SumTimeTaken dc))
       \<and> (\<forall>dc \<in> set (outputList (returned s)).
             0 <s SumTimeTaken dc \<and> dc \<in> set (obtained lookup (requested s)))"
proof -
  have "mset (distroCosts s) = mset (filter positive (obtained lookup (requested s)))"
    using final_state(2) [OF assms] .
  then have "set (distroCosts s) = set (filter positive (obtained lookup (requested s)))"
    by (rule mset_eq_setD)
  then have m: "dc \<in> set (distroCosts s) \<longleftrightarrow>
      dc \<in> set (obtained lookup (requested s)) \<and> 0 <s SumTimeTaken dc" for dc
    by (simp add: positive_def)
  show ?thesis
  proof (cases "catcher s = []")
    case True
    then have "outputList (returned s) = distroCosts s" "snd (returned s) = None"
      by (simp_all add: returned_def outputList_def)
    with m show ?thesis by simp
  next
    case False
    then have "outputList (returned s) = []" "snd (returned s) \<noteq> None"
      by (simp_all add: returned_def outputList_def)
    then show ?thesis by auto
  qed
qed

theorem filter_positive_usage_witness:
  "getDistroCostsRun usage False [''a'', ''b'', ''c''] [2, 0, 1] schedABC = Some doneABC
   \<and> snd (returned doneABC) = None
   \<and> obtained usage (requested doneABC) = [costC, costA, costB]
   \<and> outputList (returned doneABC) = [costC, costA]
   \<and> 0 <s SumTimeTaken costA \<and> 0 <s SumTimeTaken costC \<and> \<not> 0 <s SumTimeTaken costB
   \<and> costB \<notin> set (outputList (returned doneABC))"
proof -
  have o: "obtained usage (requested doneABC) = [costC, costA, costB]"
    by (simp add: obtained_def List.map_filter_def usage_def doneABC_def)
  have r: "returned doneABC = (Some [costC, costA], None)"
    by (simp add: returned_def doneABC_def)
  then have l: "outputList (returned doneABC) = [costC, costA]" "snd (returned doneABC) = None"
    by (simp_all add: outputList_def)
  from filter_positive_usage [OF run_scenario] l(2)
  have "\<forall>dc \<in> set (obtained usage (requested doneABC)).
          dc \<in> set (outputList (returned doneABC)) \<longleftrightarrow> 0 <s SumTimeTaken dc"
    by blast
  with o have "costB \<in> set (outputList (returned doneABC)) \<longleftrightarrow> 0 <s SumTimeTaken costB"
    by simp
  with costs_positive have "costB \<notin> set (outputList (returned doneABC))" by simp
  with run_scenario o l costs_positive show ?thesis by simp
qed

section \<open>The job ID of an hour\<close>

text \<open>
  The closure of the tick reads \<open>t\<close>, which the source does not declare; it is
  taken to be the time of the tick, as the claim takes it.

  C3, as stated, fails in its second half: the ID is not always the tick truncated to
  the hour in local time. In New York on 3 November 2024 the wall clock shows the hour
  from 01:00 twice. For the tick at 01:30 standard time the source reads the fields
  2024, 11, 3, 1 and \<open>time.Date\<close> resolves them to 01:00 daylight time, ninety minutes
  before the tick, while the tick truncated to the hour is 01:00 standard time. The
  tick at 01:30 daylight time, one hour earlier, reads the same fields.
\<close>

theorem job_id_truncation_counterexample:
  "Year tickDaylight = Year tickStandard \<and> Month tickDaylight = Month tickStandard
   \<and> Day tickDaylight = Day tickStandard \<and> Hour tickDaylight = Hour tickStandard
   \<and> loc tickStandard = newYork
   \<and> jobID newYork tickStandard = ''brc-2024-11-03 01:00:00 -0400 EDT''
   \<and> ''brc-'' @ Time_String (truncateHour tickStandard) = ''brc-2024-11-03 01:00:00 -0500 EST''
   \<and> jobID newYork tickStandard \<noteq> ''brc-'' @ Time_String (truncateHour tickStandard)"
proof -
  have j: "jobID newYork tickStandard = ''brc-2024-11-03 01:00:00 -0400 EDT''"
    by (simp add: jobID_def lastHour_def newYork_fields newYork_one newYork_one_String)
  have l: "loc tickStandard = newYork" by (simp add: tickStandard_def)
  show ?thesis using j l by (simp add: newYork_fields newYork_floor_String)
qed

text \<open>
  C3, amended. Two ticks for which the scheduler reads the same year, month, day and
  hour, that is, two ticks within the same hour of the local wall clock, compute the
  same job ID, and the ID is \<open>brc-\<close> followed by the printed form of the time that
  \<open>time.Date\<close> builds in \<open>time.Local\<close> from that year, month, day and hour with
  minute, second and nanosecond zero; so the second submission carries an ID the
  queue already knows, it is rejected and the queue stays as it was. That time is the
  tick truncated to the hour in local time whenever the tick is a time of
  \<open>time.Local\<close> and \<open>time.Date\<close> resolves the wall-clock hour with the offset in
  force at the tick, as it does in every zone without clock changes (lemmas
  \<open>lastHour_truncates\<close> and \<open>fixedZone_resolves\<close>).
\<close>

theorem job_id_per_hour:
  assumes "Year t1 = Year t2" and "Month t1 = Month t2" and "Day t1 = Day t2"
    and "Hour t1 = Hour t2"
  shows "jobID Local t1 = jobID Local t2
       \<and> jobID Local t1
           = ''brc-'' @ Time_String (Date (Year t1) (Month t1) (Day t1) (Hour t1) 0 0 0 Local)
       \<and> (loc t1 = Local
            \<and> wallOffset Local (absSec t1 - absSec t1 mod 3600)
                = snd (zoneAt Local (unixNano t1 div 1000000000))
          \<longrightarrow> jobID Local t1 = ''brc-'' @ Time_String (truncateHour t1))
       \<and> fst (collectTick Local t2 (snd (collectTick Local t1 queue))) \<noteq> None
       \<and> snd (collectTick Local t2 (snd (collectTick Local t1 queue)))
           = snd (collectTick Local t1 queue)"
proof -
  have j: "jobID Local t1 = jobID Local t2"
    using assms by (simp add: jobID_def lastHour_def)
  have k: "jobID Local t1 \<in> set (snd (collectTick Local t1 queue))"
    by (simp add: collectTick_def Put_def)
  have p: "fst (collectTick Local t2 q) \<noteq> None \<and> snd (collectTick Local t2 q) = q"
    if "jobID Local t2 \<in> set q" for q
    using that by (simp add: collectTick_def Put_def)
  have t: "jobID Local t1 = ''brc-'' @ Time_String (truncateHour t1)"
    if "loc t1 = Local"
      and "wallOffset Local (absSec t1 - absSec t1 mod 3600)
             = snd (zoneAt Local (unixNano t1 div 1000000000))"
    using lastHour_truncates [OF that] by (simp add: jobID_def)
  have d: "jobID Local t1
           = ''brc-'' @ Time_String (Date (Year t1) (Month t1) (Day t1) (Hour t1) 0 0 0 Local)"
    by (simp add: jobID_def lastHour_def)
  from j k have "jobID Local t2 \<in> set (snd (collectTick Local t1 queue))" by simp
  from p [OF this] j d t show ?thesis by blast
qed

theorem job_id_per_hour_witness:
  "Year tickA = Year tickB \<and> Month tickA = Month tickB \<and> Day tickA = Day tickB
   \<and> Hour tickA = Hour tickB \<and> unixNano tickA \<noteq> unixNano tickB
   \<and> loc tickA = EST
   \<and> wallOffset EST (absSec tickA - absSec tickA mod 3600)
       = snd (zoneAt EST (unixNano tickA div 1000000000))
   \<and> truncateHour tickA = \<lparr>unixNano = 1709301600000000000, loc = EST\<rparr>
   \<and> jobID EST tickA = ''brc-2024-03-01 09:00:00 -0500 EST''
   \<and> jobID EST tickB = ''brc-2024-03-01 09:00:00 -0500 EST''
   \<and> ''brc-'' @ Time_String (truncateHour tickA) = ''brc-2024-03-01 09:00:00 -0500 EST''
   \<and> collectTick EST tickA [] = (None, [''brc-2024-03-01 09:00:00 -0500 EST''])
   \<and> snd (collectTick EST tickB (snd (collectTick EST tickA [])))
       = [''brc-2024-03-01 09:00:00 -0500 EST'']"
proof -
  have f: "Year tickA = Year tickB" "Month tickA = Month tickB" "Day tickA = Day tickB"
    "Hour tickA = Hour tickB"
    by (simp_all add: tick_fields)
  have l: "loc tickA = EST" by (simp add: tickA_def)
  have o: "wallOffset EST (absSec tickA - absSec tickA mod 3600)
       = snd (zoneAt EST (unixNano tickA div 1000000000))"
    unfolding EST_def by (rule fixedZone_resolves)
  have a: "jobID EST tickA = ''brc-2024-03-01 09:00:00 -0500 EST''"
    by (simp add: jobID_def lastHour_def tick_fields nine_est nine_est_String)
  have c: "collectTick EST tickA [] = (None, [''brc-2024-03-01 09:00:00 -0500 EST''])"
    by (simp add: collectTick_def Put_def a)
  have n: "unixNano tickA \<noteq> unixNano tickB" by (simp add: tickA_def tickB_def)
  from job_id_per_hour [OF f, of EST "[]"] l o
  have e: "jobID EST tickA = jobID EST tickB"
    and h: "jobID EST tickA = ''brc-'' @ Time_String (truncateHour tickA)"
    and d: "snd (collectTick EST tickB (snd (collectTick EST tickA [])))
              = snd (collectTick EST tickA [])"
    by blast+
  from e a have b: "jobID EST tickB = ''brc-2024-03-01 09:00:00 -0500 EST''" by simp
  from h a have g: "''brc-'' @ Time_String (truncateHour tickA)
      = ''brc-2024-03-01 09:00:00 -0500 EST''" by simp
  from d c have "snd (collectTick EST tickB (snd (collectTick EST tickA [])))
              = [''brc-2024-03-01 09:00:00 -0500 EST'']" by simp
  with a b c f n l o g tickA_floor show ?thesis by blast
qed

section \<open>The file written by an on-demand run\<close>

text \<open>
  C5. When \<open>writeCostReport\<close> succeeds, it has written exactly one file; its name is
  the window start in the layout \<open>2006-01-02-15-04\<close>, a point, the printed effective
  duration and \<open>.json\<close>; the effective duration is the requested one when one was
  requested; and the report in the file has \<open>Begin\<close> equal to the requested start
  and \<open>End\<close> equal to the start plus the duration. A start of 1 March 2024 with
  two hours gives \<open>2024-03-01-00-00.2h0m0s.json\<close>.
\<close>

theorem write_names_file_by_window:
  assumes "writeCostReport w conf start dur fs = (None, fs')"
  shows "\<exists>duration generated evg providers.
           GetDuration conf dur = (duration, None)
         \<and> (dur \<noteq> 0 \<longrightarrow> duration = dur)
         \<and> files fs' = (files fs)
              (Format_fileDate start @ ''.'' @ Duration_String duration @ ''.json'' :=
                 Some (\<lparr>Generated = generated, Begin = start, End = Add start duration\<rparr>,
                       evg, providers))"
proof -
  obtain duration e where g: "GetDuration conf dur = (duration, e)"
    by (cases "GetDuration conf dur")
  with assms have e: "e = None"
    by (cases e) (simp_all add: writeCostReport_def)
  from g e assms obtain report where c: "CreateReport w start duration conf = Inr report"
    by (cases "CreateReport w start duration conf") (simp_all add: writeCostReport_def)
  then obtain evg providers where r: "Report report
        = \<lparr>Generated = now w, Begin = start, End = Add start duration\<rparr>"
    "Evergreen report = evg" "Providers report = providers"
    by (auto simp: CreateReport_def split: sum.splits)
  from g e c assms r
  have "files fs' = (files fs)
              (Format_fileDate start @ ''.'' @ Duration_String duration @ ''.json'' :=
                 Some (\<lparr>Generated = now w, Begin = start, End = Add start duration\<rparr>,
                       evg, providers))"
    by (auto simp: writeCostReport_def WriteToFile_def split: option.splits)
  moreover have "dur \<noteq> 0 \<longrightarrow> duration = dur"
    using g by (auto simp: GetDuration_def split: if_splits)
  ultimately show ?thesis using g e by blast
qed

theorem write_names_file_by_window_witness:
  "writeCostReport quietCollectors hourlyConfig march1 twoHours noFiles
     = (None, noFiles\<lparr>files := (files noFiles)
          (''2024-03-01-00-00.2h0m0s.json'' :=
             Some (\<lparr>Generated = now quietCollectors, Begin = march1,
                    End = Add march1 twoHours\<rparr>,
                   \<lparr>Projects = [], Distros = []\<rparr>, []))\<rparr>)
   \<and> twoHours \<noteq> 0
   \<and> Format_fileDate march1 @ ''.'' @ Duration_String twoHours @ ''.json''
       = ''2024-03-01-00-00.2h0m0s.json''
   \<and> Format_RFC3339 (Add march1 twoHours) = ''2024-03-01T02:00:00Z''"
proof -
  have n: "twoHours \<noteq> 0" by (simp add: twoHours_def)
  have f: "Format_fileDate march1 @ ''.'' @ Duration_String twoHours @ ''.json''
       = ''2024-03-01-00-00.2h0m0s.json''"
    by (simp add: march1_fileDate twoHours_String)
  have w: "writeCostReport quietCollectors hourlyConfig march1 twoHours noFiles
     = (None, noFiles\<lparr>files := (files noFiles)
          (''2024-03-01-00-00.2h0m0s.json'' :=
             Some (\<lparr>Generated = now quietCollectors, Begin = march1,
                    End = Add march1 twoHours\<rparr>,
                   \<lparr>Projects = [], Distros = []\<rparr>, []))\<rparr>)"
    using n
    by (simp add: writeCostReport_def GetDuration_def CreateReport_def WriteToFile_def
          quietCollectors_def noFiles_def march1_fileDate twoHours_String)
  have e: "Format_RFC3339 (Add march1 twoHours) = ''2024-03-01T02:00:00Z''"
    by (simp add: Format_RFC3339_def ymd_def clock_def Add_def march1_def twoHours_def UTC_def
          field_eval civil_eval digit_eval)
  from write_names_file_by_window [OF w] n w f e show ?thesis by simp
qed

section \<open>Save is an upsert\<close>

text \<open>
  C6. \<open>Save\<close> returns an error exactly when the session cannot be obtained or the
  store fails the write. When it returns nil, the collection holds the report under
  its ID, in place of whatever was there, and is unchanged elsewhere; whether a
  document was there before shows only in the change information of the debug
  message; and the error returned is the same whatever documents the collection
  held. When it returns an error the documents are unchanged.
\<close>

theorem save_is_upsert:
  assumes "CostReport_Save r st = (err, st', debug)"
  shows "(err \<noteq> None \<longleftrightarrow> isl (GetSessionWithConfig (CostReport.env r)) \<or> fault st \<noteq> None)
       \<and> (err = None \<longrightarrow>
            docs st' = (docs st)(CostReport.ID r := Some (encodeReport r))
            \<and> debug = [(CostReport.ID r,
                 Some (if docs st (CostReport.ID r) \<noteq> None
                       then \<lparr>Updated = 1, UpsertedId = None\<rparr>
                       else \<lparr>Updated = 0, UpsertedId = Some (CostReport.ID r)\<rparr>))])
       \<and> (err \<noteq> None \<longrightarrow> docs st' = docs st)
       \<and> fst (CostReport_Save r (st\<lparr>docs := others\<rparr>)) = err"
proof (cases "GetSessionWithConfig (CostReport.env r)")
  case (Inl e)
  with assms show ?thesis by (auto simp: CostReport_Save_def)
next
  case (Inr name)
  show ?thesis
  proof (cases "fault st")
    case None
    with Inr assms show ?thesis
      by (auto simp: CostReport_Save_def UpsertId_def)
  next
    case (Some e)
    with Inr assms show ?thesis
      by (cases "ResultsNotFound (Some e)") (auto simp: CostReport_Save_def UpsertId_def)
  qed
qed

theorem save_is_upsert_witness:
  "CostReport_Save reportNew storeWithOld
     = (None, storeWithOld\<lparr>docs := (docs storeWithOld)(''r1'' := Some (encodeReport reportNew))\<rparr>,
        [(''r1'', Some \<lparr>Updated = 1, UpsertedId = None\<rparr>)])
   \<and> docs storeWithOld ''r1'' = Some (encodeReport reportOld)
   \<and> encodeReport reportOld \<noteq> encodeReport reportNew
   \<and> CostReport_Save reportNew rejectingStore
     = (Some (ErrWrap (ErrNew ''write rejected'') ''problem saving cost reporting configuration''),
        rejectingStore, [(''r1'', None)])
   \<and> fault rejectingStore \<noteq> None
   \<and> fst (CostReport_Save reportNew (storeWithOld\<lparr>docs := (\<lambda>key. None)\<rparr>)) = None"
proof -
  have i: "CostReport.ID reportNew = ''r1''" "CostReport.env reportNew = Some workingEnv"
    by (simp_all add: reportNew_def)
  have s: "CostReport_Save reportNew storeWithOld
     = (None, storeWithOld\<lparr>docs := (docs storeWithOld)(''r1'' := Some (encodeReport reportNew))\<rparr>,
        [(''r1'', Some \<lparr>Updated = 1, UpsertedId = None\<rparr>)])"
    by (simp add: CostReport_Save_def UpsertId_def GetSessionWithConfig_def i workingEnv_def
          storeWithOld_def)
  have d: "docs storeWithOld ''r1'' = Some (encodeReport reportOld)"
    by (simp add: storeWithOld_def)
  have n: "encodeReport reportOld \<noteq> encodeReport reportNew"
    by (simp add: encodeReport_def reportOld_def reportNew_def newCostReport_def zeroTime_def
          march1_def)
  have r: "CostReport_Save reportNew rejectingStore
     = (Some (ErrWrap (ErrNew ''write rejected'') ''problem saving cost reporting configuration''),
        rejectingStore, [(''r1'', None)])"
    by (simp add: CostReport_Save_def UpsertId_def GetSessionWithConfig_def i workingEnv_def
          rejectingStore_def)
  have f: "fault rejectingStore \<noteq> None" by (simp add: rejectingStore_def)
  from save_is_upsert [OF s, of "\<lambda>key. None"]
  have "fst (CostReport_Save reportNew (storeWithOld\<lparr>docs := (\<lambda>key. None)\<rparr>)) = None"
    by blast
  with s d n r f show ?thesis by blast
qed

section \<open>A failed distro list is fatal to the fetch\<close>

text \<open>
  C7. When \<open>GetDistros\<close> returns an error, \<open>GetEvergreenDistrosData\<close> returns a
  nil list and an error, whatever the context, the permutation and the schedule; the
  only route requested is \<open>/distros\<close>, so no cost lookup is made; the error is the
  cause wrapped twice, by \<open>getDistroIDs\<close> and by \<open>GetEvergreenDistrosData\<close>, and
  \<open>errors.Cause\<close> of it is the cause of the original error, down to the request
  error when the request itself failed.
\<close>

theorem distro_list_failure_is_fatal:
  assumes "GetDistros c = (ds, Some cause)"
  shows "GetEvergreenDistrosData c cancelled perm sched starttime duration
           = Some (Return ((None,
                     Some (ErrWrap (ErrWrap cause ''error getting distros ids'')
                             ''error in getting distroID in GetEvergreenDistrosData'')),
                   [''/distros'']))
       \<and> Cause (ErrWrap (ErrWrap cause ''error getting distros ids'')
                   ''error in getting distroID in GetEvergreenDistrosData'') = Cause cause
       \<and> (\<forall>data err. get c ''/distros'' = (data, '''', Some err) \<longrightarrow> Cause cause = Cause err)"
proof (intro conjI allI impI)
  have "getDistroIDs c = Return (None, Some (ErrWrap cause ''error getting distros ids''))"
    using assms by (simp add: getDistroIDs_def)
  then show "GetEvergreenDistrosData c cancelled perm sched starttime duration
           = Some (Return ((None,
                     Some (ErrWrap (ErrWrap cause ''error getting distros ids'')
                             ''error in getting distroID in GetEvergreenDistrosData'')),
                   [''/distros'']))"
    by (simp add: GetEvergreenDistrosData_def Let_def)
  show "Cause (ErrWrap (ErrWrap cause ''error getting distros ids'')
                   ''error in getting distroID in GetEvergreenDistrosData'') = Cause cause"
    by simp
next
  fix data err
  assume "get c ''/distros'' = (data, '''', Some err)"
  with assms have "cause = ErrWrap err ''error in getting distros''"
    by (simp add: GetDistros_def)
  then show "Cause cause = Cause err" by simp
qed

theorem distro_list_failure_is_fatal_witness:
  "GetDistros failingClient
     = (None, Some (ErrWrap (ErrNew ''connection refused'') ''error in getting distros''))
   \<and> get failingClient ''/distros'' = ('''', '''', Some (ErrNew ''connection refused''))
   \<and> GetEvergreenDistrosData failingClient False [] [] march1 twoHours
       = Some (Return ((None,
            Some (ErrWrap (ErrWrap (ErrWrap (ErrNew ''connection refused'')
                    ''error in getting distros'') ''error getting distros ids'')
                    ''error in getting distroID in GetEvergreenDistrosData'')),
            [''/distros'']))
   \<and> Cause (ErrWrap (ErrWrap (ErrWrap (ErrNew ''connection refused'')
                    ''error in getting distros'') ''error getting distros ids'')
                    ''error in getting distroID in GetEvergreenDistrosData'')
       = ErrNew ''connection refused''"
proof -
  have g: "get failingClient ''/distros'' = ('''', '''', Some (ErrNew ''connection refused''))"
    by (simp add: failingClient_def)
  have d: "GetDistros failingClient
     = (None, Some (ErrWrap (ErrNew ''connection refused'') ''error in getting distros''))"
    by (simp add: GetDistros_def failingClient_def)
  from distro_list_failure_is_fatal [OF d, of False "[]" "[]" march1 twoHours] g d
  show ?thesis by simp
qed

section \<open>The polarity of IsNil\<close>

text \<open>
  C10. \<open>CostReport.IsNil\<close> returns the \<open>populated\<close> flag itself: false for a
  freshly constructed report, true after a \<open>FindID\<close> that returned nil; while
  \<open>CedarConfig.IsNil\<close> returns the negation of its flag, true exactly when the
  configuration is not populated.
\<close>

theorem is_nil_polarity:
  "CostReport_IsNil r = CostReport.populated r
   \<and> \<not> CostReport_IsNil newCostReport
   \<and> (CostReport_FindID r key st = (None, r') \<longrightarrow> CostReport_IsNil r')
   \<and> CedarConfig_IsNil c = (\<not> CedarConfig.populated c)"
  by (auto simp: CostReport_IsNil_def CedarConfig_IsNil_def newCostReport_def
        CostReport_FindID_def Let_def split: sum.splits prod.splits if_splits)

theorem is_nil_polarity_witness:
  "fst (CostReport_FindID freshReport ''r1'' storeWithOld) = None
   \<and> CostReport_IsNil (snd (CostReport_FindID freshReport ''r1'' storeWithOld))
   \<and> \<not> CostReport_IsNil freshReport
   \<and> CostReport.ID (snd (CostReport_FindID freshReport ''r1'' storeWithOld)) = ''r1''"
proof -
  have f: "fst (CostReport_FindID freshReport ''r1'' storeWithOld) = None"
    by (simp add: CostReport_FindID_def GetSessionWithConfig_def FindIdOne_def freshReport_def
          CostReport_Setup_def workingEnv_def storeWithOld_def Let_def)
  then have e: "CostReport_FindID freshReport ''r1'' storeWithOld
      = (None, snd (CostReport_FindID freshReport ''r1'' storeWithOld))"
    by (metis prod.collapse)
  have i: "CostReport.ID (snd (CostReport_FindID freshReport ''r1'' storeWithOld)) = ''r1''"
    by (simp add: CostReport_FindID_def GetSessionWithConfig_def FindIdOne_def freshReport_def
          CostReport_Setup_def workingEnv_def storeWithOld_def Let_def decodeReport_def
          encodeReport_def reportOld_def)
  have n: "\<not> CostReport_IsNil freshReport"
    by (simp add: CostReport_IsNil_def freshReport_def CostReport_Setup_def newCostReport_def)
  from is_nil_polarity [of freshReport "''r1''" storeWithOld
      "snd (CostReport_FindID freshReport ''r1'' storeWithOld)"] e
  have "CostReport_IsNil (snd (CostReport_FindID freshReport ''r1'' storeWithOld))"
    by blast
  with f n i show ?thesis by blast
qed

section \<open>The set of records does not depend on the order\<close>

text \<open>
  C8, as stated, fails: two runs over the same IDs and the same lookup results differ
  in the set they return when the context is cancelled during one of them, because a
  worker that finds the context cancelled drops the ID it has received and returns.
  Both runs return no error.
\<close>

theorem fetch_set_counterexample:
  "getDistroCosts usage False [''a''] [0] schedOne = Some (Some [costA], None)
   \<and> getDistroCosts usage False [''a''] [0] schedCancelled = Some (Some [], None)
   \<and> set [costA] \<noteq> set ([] :: DistroCost list)"
  using run_one run_cancelled
  by (simp add: getDistroCosts_def returned_def doneOne_def doneCancelled_def)

text \<open>
  C8, amended. For a fixed mapping from distro IDs to lookup results and a context
  whose state does not change while the fetch runs (it is never cancelled, or it was
  cancelled on entry), any two runs of \<open>getDistroCosts\<close>, whatever the permutations
  drawn and the schedules, both return a list or both return nil with an error, the
  two lists hold the same records with the same multiplicities, and the same errors
  were collected; only the order may differ.
\<close>

theorem fetch_set_deterministic:
  assumes "getDistroCostsRun lookup cancelled distroIDs perm1 sched1 = Some s1"
    and "getDistroCostsRun lookup cancelled distroIDs perm2 sched2 = Some s2"
    and "Cancel \<notin> set sched1" and "Cancel \<notin> set sched2"
  shows "map_option mset (fst (returned s1)) = map_option mset (fst (returned s2))
       \<and> (snd (returned s1) = None \<longleftrightarrow> snd (returned s2) = None)
       \<and> mset (catcher s1) = mset (catcher s2)"
proof -
  have rq: "mset (requested s1) = mset (requested s2)"
  proof (cases cancelled)
    case True
    with assms(1,2) have "requested s1 = []" "requested s2 = []"
      by (auto dest: requested_none)
    then show ?thesis by simp
  next
    case False
    with assms(1,2) have "getDistroCostsRun lookup False distroIDs perm1 sched1 = Some s1"
      "getDistroCostsRun lookup False distroIDs perm2 sched2 = Some s2" by simp_all
    from requested_all [OF this(1) assms(3)] requested_all [OF this(2) assms(4)]
    show ?thesis by simp
  qed
  have "mset (failures lookup (requested s1)) = mset (failures lookup (requested s2))"
    unfolding failures_def using rq by (rule mset_map_filter)
  then have c: "mset (catcher s1) = mset (catcher s2)"
    using final_state(1) [OF assms(1)] final_state(1) [OF assms(2)] by simp
  have "catcher s1 = [] \<longleftrightarrow> mset (catcher s1) = {#}" by simp
  also have "\<dots> \<longleftrightarrow> mset (catcher s2) = {#}" using c by simp
  finally have e: "catcher s1 = [] \<longleftrightarrow> catcher s2 = []" by simp
  have "mset (obtained lookup (requested s1)) = mset (obtained lookup (requested s2))"
    unfolding obtained_def using rq by (rule mset_map_filter)
  then have "filter_mset positive (mset (obtained lookup (requested s1)))
           = filter_mset positive (mset (obtained lookup (requested s2)))"
    by simp
  then have d: "mset (distroCosts s1) = mset (distroCosts s2)"
    using final_state(2) [OF assms(1)] final_state(2) [OF assms(2)] by simp
  show ?thesis
  proof (cases "catcher s1 = []")
    case True
    with e have "catcher s2 = []" by simp
    with True c d show ?thesis by (simp add: returned_def)
  next
    case False
    with e have "catcher s2 \<noteq> []" by simp
    with False c show ?thesis by (simp add: returned_def)
  qed
qed

theorem fetch_set_deterministic_witness:
  "getDistroCostsRun usage False [''a'', ''b'', ''c''] [2, 0, 1] schedABC = Some doneABC
   \<and> getDistroCostsRun usage False [''a'', ''b'', ''c''] [0, 1, 2] schedSeq = Some doneSeq
   \<and> Cancel \<notin> set schedABC \<and> Cancel \<notin> set schedSeq
   \<and> fst (returned doneABC) = Some [costC, costA]
   \<and> fst (returned doneSeq) = Some [costA, costC]
   \<and> mset [costC, costA] = mset [costA, costC]"
proof -
  have n: "Cancel \<notin> set schedABC" "Cancel \<notin> set schedSeq"
    by (auto simp: schedABC_def schedSeq_def)
  have r: "fst (returned doneABC) = Some [costC, costA]" "fst (returned doneSeq) = Some [costA, costC]"
    by (simp_all add: returned_def doneABC_def doneSeq_def)
  from fetch_set_deterministic [OF run_scenario run_scenario_seq n] r
  have "mset [costC, costA] = mset [costA, costC]" by simp
  with run_scenario run_scenario_seq n r show ?thesis by simp
qed

section \<open>Pagination is checked before the request error\<close>

text \<open>
  C9. Whenever the response of \<open>get\<close> carries a non-empty pagination link, both
  \<open>GetDistros\<close> and \<open>GetDistroCost\<close> return \<open>(nil, error)\<close>, and the error is
  the pagination error whatever the request error was: the link is tested first.
\<close>

theorem pagination_checked_first:
  "(get c ''/distros'' = (data, link, err) \<and> link \<noteq> '''' \<longrightarrow>
      GetDistros c = (None, Some (ErrNew ''/distros should not be a paginated route'')))
   \<and> (get c (costRoute d st dur) = (data', link', err') \<and> link' \<noteq> '''' \<longrightarrow>
      GetDistroCost c d st dur =
        (None, Some (ErrNew ''/cost/distro should not be a paginated route'')))"
  by (simp add: GetDistros_def GetDistroCost_def)

theorem pagination_checked_first_witness:
  "get paginatedClient ''/distros'' = ('''', ''next'', Some (ErrNew ''connection reset''))
   \<and> ''next'' \<noteq> ''''
   \<and> GetDistros paginatedClient
         = (None, Some (ErrNew ''/distros should not be a paginated route''))
   \<and> get paginatedClient (costRoute ''a'' ''s'' ''d'')
         = ('''', ''next'', Some (ErrNew ''connection reset''))
   \<and> GetDistroCost paginatedClient ''a'' ''s'' ''d''
         = (None, Some (ErrNew ''/cost/distro should not be a paginated route''))"
proof -
  have g: "get paginatedClient ''/distros'' = ('''', ''next'', Some (ErrNew ''connection reset''))"
    and h: "get paginatedClient (costRoute ''a'' ''s'' ''d'')
              = ('''', ''next'', Some (ErrNew ''connection reset''))"
    by (simp_all add: paginatedClient_def)
  have n: "''next'' \<noteq> ''''" by simp
  from pagination_checked_first
    [of paginatedClient "''''" "''next''" "Some (ErrNew ''connection reset'')"
        "''a''" "''s''" "''d''" "''''" "''next''" "Some (ErrNew ''connection reset'')"]
  show ?thesis using g h n by simp
qed


end
